theory Spec2Isabelle
  imports Complex_Main "HOL-Library.Multiset"
begin

section \<open>Conventions of the embedding\<close>

text \<open>
  The Python sources of the steel-plant multi-agent system compute on floats (and on
  ints that are mixed freely with floats).  They are embedded over \<^typ>\<open>real\<close>: every
  arithmetic operation is the exact one, rounding is not modelled.  Decimal literals
  such as \<open>0.05\<close> denote the exact rational.  A Python dict whose iteration order
  matters is an association list; a dict that is only looked up is a map.  An object
  with mutable attributes is a record that is passed in and returned updated.
\<close>

subsection \<open>Observation values\<close>

text \<open>
  Observation dicts hold floats, ints and bools.  Python compares a bool as the
  integer 0 or 1 and tests a number for truth by comparing it with zero.
\<close>

datatype pyval = Num real | Flag bool

fun as_num :: "pyval \<Rightarrow> real" where
  "as_num (Num r) = r"
| "as_num (Flag b) = (if b then 1 else 0)"

fun truthy :: "pyval \<Rightarrow> bool" where
  "truthy (Num r) = (r \<noteq> 0)"
| "truthy (Flag b) = b"

type_synonym observations = "string \<rightharpoonup> pyval"

text \<open>\<^verbatim>\<open>observations.get(key, default)\<close>\<close>

definition obs_get :: "observations \<Rightarrow> string \<Rightarrow> pyval \<Rightarrow> pyval" where
  "obs_get observations key dflt = (case observations key of None \<Rightarrow> dflt | Some v \<Rightarrow> v)"

section \<open>Control primitives (solvers/rule\_based.py)\<close>

text \<open>\<^verbatim>\<open>RuleBasedController.clamp\<close>: \<^verbatim>\<open>max(min_val, min(max_val, value))\<close>.\<close>

definition clamp :: "real \<Rightarrow> real \<Rightarrow> real \<Rightarrow> real" where
  "clamp val min_val max_val = max min_val (min max_val val)"

text \<open>
  \<^verbatim>\<open>RuleBasedController.hysteresis_check\<close>.  The \<^verbatim>\<open>if/elif/elif\<close> chain falls through
  to the final \<^verbatim>\<open>return False, "normal"\<close> when the third branch is entered and its inner
  test fails.
\<close>

definition hysteresis_check :: "real \<Rightarrow> real \<Rightarrow> real \<Rightarrow> real \<Rightarrow> bool \<Rightarrow> bool \<times> string" where
  "hysteresis_check current_value target upper_band lower_band current_state =
     (if current_value > target + upper_band then (True, ''above_upper_band'')
      else if current_value < target - lower_band then (True, ''below_lower_band'')
      else if current_state then
        (if target - lower_band / 2 \<le> current_value \<and> current_value \<le> target + upper_band / 2
         then (True, ''within_hysteresis'')
         else (False, ''normal''))
      else (False, ''normal''))"

text \<open>
  The flags that a caller sees when it feeds each returned flag back as
  \<^verbatim>\<open>current_state\<close> of the next call, along a sequence of measured values.
\<close>

fun hysteresis_flags :: "real \<Rightarrow> real \<Rightarrow> real \<Rightarrow> bool \<Rightarrow> real list \<Rightarrow> bool list" where
  "hysteresis_flags target upper_band lower_band current_state [] = []"
| "hysteresis_flags target upper_band lower_band current_state (v # vs) =
     (let active = fst (hysteresis_check v target upper_band lower_band current_state)
      in active # hysteresis_flags target upper_band lower_band active vs)"

text \<open>
  \<^verbatim>\<open>RuleBasedController.incremental_adjust\<close>.  The default of \<^verbatim>\<open>max_val\<close> is
  \<^verbatim>\<open>float('inf')\<close>; it is \<open>None\<close> here, and clamping against it leaves only the
  lower bound.  The defaults \<^verbatim>\<open>step_size=0.05\<close> and \<^verbatim>\<open>min_val=0.0\<close> are written out
  at each call.
\<close>

definition incremental_adjust :: "real \<Rightarrow> string \<Rightarrow> real \<Rightarrow> real \<Rightarrow> real option \<Rightarrow> real" where
  "incremental_adjust current_value direction step_size min_val max_val =
     (let new_value =
            (if direction = ''increase'' then current_value * (1 + step_size)
             else if direction = ''decrease'' then current_value * (1 - step_size)
             else current_value)
      in case max_val of
           None \<Rightarrow> max min_val new_value
         | Some m \<Rightarrow> clamp new_value min_val m)"

subsection \<open>The safety limit table\<close>

definition BF_WIND_MIN :: real where "BF_WIND_MIN = 1000"
definition BF_WIND_MAX :: real where "BF_WIND_MAX = 8000"
definition BF_O2_MAX :: real where "BF_O2_MAX = 6.0"
definition BF_PCI_MAX :: real where "BF_PCI_MAX = 200"
definition BF_TEMP_MAX :: real where "BF_TEMP_MAX = 1600"
definition BF_SI_MAX :: real where "BF_SI_MAX = 0.8"
definition BOF_O2_MAX :: real where "BOF_O2_MAX = 60000"
definition BOF_TEMP_MAX :: real where "BOF_TEMP_MAX = 1750"
definition BOF_P_MAX :: real where "BOF_P_MAX = 15.0"
definition CO_TEMP_MAX :: real where "CO_TEMP_MAX = 1400"
definition CO_TEMP_MIN :: real where "CO_TEMP_MIN = 1000"
definition GH_P_EMERGENCY :: real where "GH_P_EMERGENCY = 16.0"
definition GH_P_MIN :: real where "GH_P_MIN = 8.0"
definition GH_SOC_MIN :: real where "GH_SOC_MIN = 0.05"
definition GH_SOC_MAX :: real where "GH_SOC_MAX = 0.95"

section \<open>The blast furnace agent (agents/bf\_agent.py)\<close>

text \<open>
  The agent's \<^verbatim>\<open>state\<close> dict has a fixed key set and is a record, as is
  \<^verbatim>\<open>hysteresis_states\<close>.  The attribute \<^verbatim>\<open>state\<close> is called \<open>bf_state\<close> and
  \<^verbatim>\<open>agent_id\<close> is \<open>bf_agent_id\<close>, since the other agents have attributes of the same
  names.
\<close>

record BF_state =
  wind_volume :: real
  O2_enrichment :: real
  PCI :: real
  COG_ratio :: real
  Si_target :: real
  T_target :: real

record BF_hysteresis =
  gh_full_action_active :: bool
  gh_empty_action_active :: bool
  si_high_action_active :: bool
  si_low_action_active :: bool

record BF_Agent =
  bf_agent_id :: string
  bf_state :: BF_state
  hysteresis_states :: BF_hysteresis
  Si_band :: real
  SOC_high :: real
  SOC_low :: real
  P_high :: real
  P_low :: real

text \<open>\<^verbatim>\<open>BF_Agent.__init__\<close>\<close>

definition BF_Agent_init :: "string \<Rightarrow> BF_Agent" where
  "BF_Agent_init agent_id =
     \<lparr> bf_agent_id = agent_id,
       bf_state = \<lparr> wind_volume = 4000, O2_enrichment = 3.5, PCI = 150,
                    COG_ratio = 0.2, Si_target = 0.45, T_target = 1500 \<rparr>,
       hysteresis_states = \<lparr> gh_full_action_active = False, gh_empty_action_active = False,
                             si_high_action_active = False, si_low_action_active = False \<rparr>,
       Si_band = 0.03, SOC_high = 0.85, SOC_low = 0.25, P_high = 14.0, P_low = 9.0 \<rparr>"

text \<open>\<^verbatim>\<open>BF_Agent.get_state\<close> returns a copy of the state dict.\<close>

definition BF_get_state :: "BF_Agent \<Rightarrow> BF_state" where
  "BF_get_state a = bf_state a"

text \<open>Level 1, \<^verbatim>\<open>BF_Agent._apply_safety_rules\<close>.\<close>

definition BF_apply_safety_rules :: "BF_Agent \<Rightarrow> real \<Rightarrow> real \<Rightarrow> real \<Rightarrow> BF_Agent" where
  "BF_apply_safety_rules a Si T_hot_metal O2_available =
     (let s = bf_state a;
          s = s\<lparr>wind_volume := clamp (wind_volume s) BF_WIND_MIN BF_WIND_MAX\<rparr>;
          s = s\<lparr>O2_enrichment := clamp (O2_enrichment s) 0.0 BF_O2_MAX\<rparr>;
          s = (if T_hot_metal > BF_TEMP_MAX then
                 (let s = s\<lparr>PCI := incremental_adjust (PCI s) ''decrease'' 0.20 0.0 None\<rparr>
                  in s\<lparr>O2_enrichment :=
                          incremental_adjust (O2_enrichment s) ''decrease'' 0.20 0.0 None\<rparr>)
               else s);
          s = (if Si > BF_SI_MAX then
                 s\<lparr>PCI := incremental_adjust (PCI s) ''decrease'' 0.05 0.0 None\<rparr>
               else s)
      in a\<lparr>bf_state := s\<rparr>)"

text \<open>Level 2, \<^verbatim>\<open>BF_Agent._apply_process_rules\<close>.\<close>

definition BF_process_si_high :: "BF_Agent \<Rightarrow> real \<Rightarrow> BF_Agent" where
  "BF_process_si_high a Si =
     (let s = bf_state a; h = hysteresis_states a; Si_target = Si_target s
      in if Si > Si_target + Si_band a then
           (let h = h\<lparr>si_high_action_active := True\<rparr>;
                s = s\<lparr>PCI := incremental_adjust (PCI s) ''decrease'' 0.10 0.0 None\<rparr>;
                s = s\<lparr>O2_enrichment :=
                        incremental_adjust (O2_enrichment s) ''decrease'' 0.10 0.0 None\<rparr>
            in a\<lparr>bf_state := s, hysteresis_states := h\<rparr>)
         else if Si < Si_target + Si_band a / 2 then
           a\<lparr>hysteresis_states := h\<lparr>si_high_action_active := False\<rparr>\<rparr>
         else a)"

definition BF_process_si_low :: "BF_Agent \<Rightarrow> real \<Rightarrow> BF_Agent" where
  "BF_process_si_low a Si =
     (let s = bf_state a; h = hysteresis_states a; Si_target = Si_target s
      in if Si < Si_target - Si_band a then
           (let h = h\<lparr>si_low_action_active := True\<rparr>;
                s = s\<lparr>PCI := incremental_adjust (PCI s) ''increase'' 0.10 0.0 (Some BF_PCI_MAX)\<rparr>;
                s = s\<lparr>wind_volume :=
                        incremental_adjust (wind_volume s) ''increase'' 0.10 0.0 (Some BF_WIND_MAX)\<rparr>
            in a\<lparr>bf_state := s, hysteresis_states := h\<rparr>)
         else if Si > Si_target - Si_band a / 2 then
           a\<lparr>hysteresis_states := h\<lparr>si_low_action_active := False\<rparr>\<rparr>
         else a)"

definition BF_apply_process_rules :: "BF_Agent \<Rightarrow> real \<Rightarrow> BF_Agent" where
  "BF_apply_process_rules a Si = BF_process_si_low (BF_process_si_high a Si) Si"

text \<open>
  Level 3, \<^verbatim>\<open>BF_Agent._apply_energy_rules\<close>: four statements in sequence, one
  definition each.
\<close>

definition BF_energy_gh_full :: "BF_Agent \<Rightarrow> real \<Rightarrow> real \<Rightarrow> BF_Agent" where
  "BF_energy_gh_full a SOC_bfg P_bfg =
     (let s = bf_state a; h = hysteresis_states a
      in if SOC_bfg > SOC_high a \<or> P_bfg > P_high a then
           (let h = h\<lparr>gh_full_action_active := True\<rparr>;
                s = s\<lparr>wind_volume :=
                        incremental_adjust (wind_volume s) ''decrease'' 0.15 BF_WIND_MIN None\<rparr>;
                s = s\<lparr>PCI := incremental_adjust (PCI s) ''decrease'' 0.12 0.0 None\<rparr>;
                s = s\<lparr>O2_enrichment :=
                        incremental_adjust (O2_enrichment s) ''decrease'' 0.15 0.0 None\<rparr>
            in a\<lparr>bf_state := s, hysteresis_states := h\<rparr>)
         else if SOC_bfg < 0.75 \<and> P_bfg < 13.0 then
           a\<lparr>hysteresis_states := h\<lparr>gh_full_action_active := False\<rparr>\<rparr>
         else a)"

definition BF_energy_gh_empty :: "BF_Agent \<Rightarrow> real \<Rightarrow> real \<Rightarrow> BF_Agent" where
  "BF_energy_gh_empty a SOC_bfg P_bfg =
     (let s = bf_state a; h = hysteresis_states a
      in if SOC_bfg < SOC_low a \<or> P_bfg < P_low a then
           (let h = h\<lparr>gh_empty_action_active := True\<rparr>;
                s = s\<lparr>wind_volume :=
                        incremental_adjust (wind_volume s) ''increase'' 0.15 0.0 (Some BF_WIND_MAX)\<rparr>;
                s = s\<lparr>PCI := incremental_adjust (PCI s) ''increase'' 0.12 0.0 (Some BF_PCI_MAX)\<rparr>
            in a\<lparr>bf_state := s, hysteresis_states := h\<rparr>)
         else if SOC_bfg > 0.30 \<and> P_bfg > 10.0 then
           a\<lparr>hysteresis_states := h\<lparr>gh_empty_action_active := False\<rparr>\<rparr>
         else a)"

definition BF_energy_cog_shortage :: "BF_Agent \<Rightarrow> real \<Rightarrow> real \<Rightarrow> BF_Agent" where
  "BF_energy_cog_shortage a COG_available COG_required =
     (let s = bf_state a
      in if COG_available < COG_required then
           (let s = s\<lparr>COG_ratio := incremental_adjust (COG_ratio s) ''decrease'' 0.10 0.0 None\<rparr>;
                s = s\<lparr>PCI := incremental_adjust (PCI s) ''increase'' 0.05 0.0 (Some BF_PCI_MAX)\<rparr>
            in a\<lparr>bf_state := s\<rparr>)
         else a)"

definition BF_energy_o2_shortage :: "BF_Agent \<Rightarrow> real \<Rightarrow> BF_Agent" where
  "BF_energy_o2_shortage a O2_available =
     (let s = bf_state a;
          O2_required = O2_enrichment s * wind_volume s / 100
      in if O2_available < O2_required then
           (let s = s\<lparr>O2_enrichment :=
                        incremental_adjust (O2_enrichment s) ''decrease'' 0.10 0.0 None\<rparr>;
                s = s\<lparr>PCI := incremental_adjust (PCI s) ''increase'' 0.04 0.0 (Some BF_PCI_MAX)\<rparr>
            in a\<lparr>bf_state := s\<rparr>)
         else a)"

definition BF_apply_energy_rules ::
    "BF_Agent \<Rightarrow> real \<Rightarrow> real \<Rightarrow> real \<Rightarrow> real \<Rightarrow> real \<Rightarrow> BF_Agent" where
  "BF_apply_energy_rules a SOC_bfg P_bfg COG_available COG_required O2_available =
     BF_energy_o2_shortage
       (BF_energy_cog_shortage
          (BF_energy_gh_empty (BF_energy_gh_full a SOC_bfg P_bfg) SOC_bfg P_bfg)
          COG_available COG_required)
       O2_available"

text \<open>Level 4, \<^verbatim>\<open>BF_Agent._apply_economic_rules\<close>.\<close>

definition BF_apply_economic_rules :: "BF_Agent \<Rightarrow> bool \<Rightarrow> BF_Agent" where
  "BF_apply_economic_rules a peak_electricity =
     (let s = bf_state a
      in if peak_electricity then
           a\<lparr>bf_state := s\<lparr>wind_volume :=
                incremental_adjust (wind_volume s) ''decrease'' 0.05 BF_WIND_MIN None\<rparr>\<rparr>
         else a)"

text \<open>
  \<^verbatim>\<open>BF_Agent.step\<close>.  The method never touches its \<^verbatim>\<open>message_bus\<close> argument, which
  is left out.  The model returns the updated agent; the Python return value is
  \<open>BF_get_state\<close> of it.
\<close>

definition BF_step :: "BF_Agent \<Rightarrow> observations \<Rightarrow> BF_Agent" where
  "BF_step a observations =
     (let Si = as_num (obs_get observations ''Si'' (Num 0.45));
          T_hot_metal = as_num (obs_get observations ''T_hot_metal'' (Num 1500));
          SOC_bfg = as_num (obs_get observations ''SOC_bfg'' (Num 0.5));
          P_bfg = as_num (obs_get observations ''P_bfg'' (Num 12.0));
          COG_available = as_num (obs_get observations ''COG_available'' (Num 10000));
          COG_required = as_num (obs_get observations ''COG_required'' (Num 8000));
          O2_available = as_num (obs_get observations ''O2_available'' (Num 50000));
          peak_electricity = truthy (obs_get observations ''peak_electricity'' (Flag False));
          a = BF_apply_safety_rules a Si T_hot_metal O2_available;
          a = BF_apply_process_rules a Si;
          a = BF_apply_energy_rules a SOC_bfg P_bfg COG_available COG_required O2_available;
          a = BF_apply_economic_rules a peak_electricity
      in a)"

text \<open>A sequence of \<^verbatim>\<open>step\<close> calls, one per observation map.\<close>

definition BF_run :: "BF_Agent \<Rightarrow> observations list \<Rightarrow> BF_Agent" where
  "BF_run a obss = foldl BF_step a obss"

text \<open>The table bounds on the three table-bounded quantities of the agent.\<close>

definition BF_within_limits :: "BF_state \<Rightarrow> bool" where
  "BF_within_limits s \<longleftrightarrow>
     BF_WIND_MIN \<le> wind_volume s \<and> wind_volume s \<le> BF_WIND_MAX
     \<and> 0 \<le> O2_enrichment s \<and> O2_enrichment s \<le> BF_O2_MAX
     \<and> 0 \<le> PCI s \<and> PCI s \<le> BF_PCI_MAX"

section \<open>The unified gas network (models/gas\_network.py)\<close>

subsection \<open>Strings\<close>

text \<open>
  \<^verbatim>\<open>key.lower()\<close> on the ASCII letters, and the substring test \<^verbatim>\<open>gas_type in key\<close>.
\<close>

definition lower_char :: "char \<Rightarrow> char" where
  "lower_char c =
     (case map_of (zip ''ABCDEFGHIJKLMNOPQRSTUVWXYZ'' ''abcdefghijklmnopqrstuvwxyz'') c of
        None \<Rightarrow> c
      | Some l \<Rightarrow> l)"

definition lower :: "string \<Rightarrow> string" where
  "lower s = map lower_char s"

fun starts_with :: "string \<Rightarrow> string \<Rightarrow> bool" where
  "starts_with [] ys = True"
| "starts_with (x # xs) [] = False"
| "starts_with (x # xs) (y # ys) = (x = y \<and> starts_with xs ys)"

fun str_contains :: "string \<Rightarrow> string \<Rightarrow> bool" where
  "str_contains needle [] = (needle = [])"
| "str_contains needle (y # ys) = (starts_with needle (y # ys) \<or> str_contains needle ys)"

subsection \<open>The state-space holder models (Digital\_Twin/Gasholders/Gasholders.py)\<close>

text \<open>
  \<^verbatim>\<open>StateSpaceGasHolder\<close> with one state, one input and one output: the matrices
  are scalars.  A call returns the output \<open>y = C x + D u\<close> and advances the state to
  \<open>A x + B u\<close>.  The network reads the output under the name \<^verbatim>\<open>level\<close>, which is the
  only output name it configures.
\<close>

record StateSpaceGasHolder =
  ss_A :: real
  ss_B :: real
  ss_C :: real
  ss_D :: real
  ss_x :: real

definition ss_call :: "StateSpaceGasHolder \<Rightarrow> real \<Rightarrow> real \<times> StateSpaceGasHolder" where
  "ss_call m u = (ss_C m * ss_x m + ss_D m * u, m\<lparr>ss_x := ss_A m * ss_x m + ss_B m * u\<rparr>)"

definition BFGH :: StateSpaceGasHolder where
  "BFGH = \<lparr> ss_A = 0.994, ss_B = 3.135 * (1 / 10 ^ 6), ss_C = 3.49416 * 10 ^ 6,
            ss_D = 0, ss_x = 0.004 \<rparr>"

definition BOFGH :: StateSpaceGasHolder where
  "BOFGH = \<lparr> ss_A = 0.999, ss_B = 7.2884 * (1 / 10 ^ 6), ss_C = 3.2121 * 10 ^ 6,
             ss_D = 0, ss_x = 0.0049 \<rparr>"

definition COGH :: StateSpaceGasHolder where
  "COGH = \<lparr> ss_A = 1, ss_B = 1.7187 * (1 / 10 ^ 6), ss_C = 1.0066 * 10 ^ 6,
            ss_D = 0, ss_x = 0.0045 \<rparr>"

subsection \<open>The network\<close>

text \<open>
  The gas type argument is one of the strings \<^verbatim>\<open>'bfg'\<close>, \<^verbatim>\<open>'bofg'\<close>, \<^verbatim>\<open>'cog'\<close>; the
  network's own \<^verbatim>\<open>update\<close> passes exactly these three.  \<open>gas_tag\<close> gives the string
  that is matched against the demand keys.
\<close>

datatype gas_type = BFG | BOFG | COG

fun gas_tag :: "gas_type \<Rightarrow> string" where
  "gas_tag BFG = ''bfg''"
| "gas_tag BOFG = ''bofg''"
| "gas_tag COG = ''cog''"

record GasNetworkState =
  soc_bfg :: real
  p_bfg :: real
  bfg_level :: real
  soc_bofg :: real
  p_bofg :: real
  bofg_level :: real
  soc_cog :: real
  p_cog :: real
  cog_level :: real

text \<open>
  \<^verbatim>\<open>pressure_params\<close> is the pair of fields \<open>p_min\<close>, \<open>p_range\<close>; the three optional
  models are present exactly when \<open>use_state_space_models\<close> holds; the attribute
  \<^verbatim>\<open>state\<close> is called \<open>gn_state\<close>.
\<close>

record GasNetwork =
  use_state_space_models :: bool
  capacities :: "gas_type \<Rightarrow> real"
  p_min :: real
  p_range :: real
  bfgh :: StateSpaceGasHolder
  bofgh :: StateSpaceGasHolder
  cogh :: StateSpaceGasHolder
  gn_state :: GasNetworkState

definition nominal_state :: GasNetworkState where
  "nominal_state =
     \<lparr> soc_bfg = 0.5, p_bfg = 12.0, bfg_level = 0.5,
       soc_bofg = 0.5, p_bofg = 12.0, bofg_level = 0.5,
       soc_cog = 0.5, p_cog = 12.0, cog_level = 0.5 \<rparr>"

text \<open>
  \<^verbatim>\<open>GasNetwork.__init__\<close>.  The argument is the flag after the import of the holder
  models was tried: a failed import clears it.
\<close>

definition GasNetwork_init :: "bool \<Rightarrow> GasNetwork" where
  "GasNetwork_init use_models =
     \<lparr> use_state_space_models = use_models,
       capacities = (\<lambda>g. case g of BFG \<Rightarrow> 400000 | BOFG \<Rightarrow> 150000 | COG \<Rightarrow> 100000),
       p_min = 8.0, p_range = 8.0,
       bfgh = BFGH, bofgh = BOFGH, cogh = COGH,
       gn_state = nominal_state \<rparr>"

text \<open>\<^verbatim>\<open>GasNetwork._calculate_net_flow\<close>: the demands are iterated in dict order.\<close>

definition calculate_net_flow ::
    "gas_type \<Rightarrow> (string \<rightharpoonup> real) \<Rightarrow> (string \<times> real) list \<Rightarrow> real" where
  "calculate_net_flow g gas_production gas_demands =
     (let production = (case gas_production (gas_tag g) of None \<Rightarrow> 0.0 | Some v \<Rightarrow> v);
          consumption =
            foldl (\<lambda>consumption (key, val).
                     if str_contains (gas_tag g) (lower key) then consumption + val
                     else consumption)
                  0.0 gas_demands
      in production - consumption)"

text \<open>\<^verbatim>\<open>np.clip(a, a_min, a_max)\<close> on scalars.\<close>

definition np_clip :: "real \<Rightarrow> real \<Rightarrow> real \<Rightarrow> real" where
  "np_clip a a_min a_max = min (max a a_min) a_max"

text \<open>
  \<^verbatim>\<open>GasNetwork._update_holder\<close>.  The model call cannot fail on a number, so the
  \<^verbatim>\<open>except\<close> branch is never taken, and the output dict always has the key
  \<^verbatim>\<open>level\<close>.
\<close>

definition update_holder :: "GasNetwork \<Rightarrow> gas_type \<Rightarrow> real \<Rightarrow> real \<Rightarrow> GasNetwork" where
  "update_holder n g net_flow timestep =
     (let st = gn_state n;
          current_soc = (case g of BFG \<Rightarrow> soc_bfg st | BOFG \<Rightarrow> soc_bofg st | COG \<Rightarrow> soc_cog st);
          capacity = capacities n g;
          delta_soc = (net_flow / 3600) * timestep * 60 / capacity;
          new_soc = current_soc + delta_soc;
          new_soc = np_clip new_soc 0.05 0.95;
          new_p = p_min n + new_soc * p_range n;
          model = (case g of BFG \<Rightarrow> bfgh n | BOFG \<Rightarrow> bofgh n | COG \<Rightarrow> cogh n);
          (level, model') =
            (if use_state_space_models n then ss_call model net_flow else (new_soc, model))
      in case g of
           BFG \<Rightarrow> n\<lparr>bfgh := model',
                     gn_state := st\<lparr>soc_bfg := new_soc, p_bfg := new_p, bfg_level := level\<rparr>\<rparr>
         | BOFG \<Rightarrow> n\<lparr>bofgh := model',
                      gn_state := st\<lparr>soc_bofg := new_soc, p_bofg := new_p, bofg_level := level\<rparr>\<rparr>
         | COG \<Rightarrow> n\<lparr>cogh := model',
                     gn_state := st\<lparr>soc_cog := new_soc, p_cog := new_p, cog_level := level\<rparr>\<rparr>)"

text \<open>\<^verbatim>\<open>GasNetwork.update\<close>; the Python return value is \<open>gn_state\<close> of the result.\<close>

definition update ::
    "GasNetwork \<Rightarrow> (string \<rightharpoonup> real) \<Rightarrow> (string \<times> real) list \<Rightarrow> real \<Rightarrow> GasNetwork" where
  "update n gas_production gas_demands timestep =
     (let bfg_net = calculate_net_flow BFG gas_production gas_demands;
          bofg_net = calculate_net_flow BOFG gas_production gas_demands;
          cog_net = calculate_net_flow COG gas_production gas_demands;
          n = update_holder n BFG bfg_net timestep;
          n = update_holder n BOFG bofg_net timestep;
          n = update_holder n COG cog_net timestep
      in n)"

text \<open>\<^verbatim>\<open>GasNetwork.reset\<close>: only the state is replaced; the holder models keep theirs.\<close>

definition reset :: "GasNetwork \<Rightarrow> GasNetwork" where
  "reset n = n\<lparr>gn_state := nominal_state\<rparr>"

text \<open>
  The calls a client can make on a constructed network, and a sequence of them.
\<close>

datatype gn_call = Update "string \<rightharpoonup> real" "(string \<times> real) list" real | Reset

fun gn_apply :: "GasNetwork \<Rightarrow> gn_call \<Rightarrow> GasNetwork" where
  "gn_apply n (Update gas_production gas_demands timestep) =
     update n gas_production gas_demands timestep"
| "gn_apply n Reset = reset n"

definition gn_run :: "GasNetwork \<Rightarrow> gn_call list \<Rightarrow> GasNetwork" where
  "gn_run n calls = foldl gn_apply n calls"

text \<open>
  The state-of-charge bounds and the affine pressure law with the constructed
  parameters \<open>p_min = 8\<close>, \<open>p_range = 8\<close>.
\<close>

definition soc_pressure_ok :: "GasNetworkState \<Rightarrow> bool" where
  "soc_pressure_ok st \<longleftrightarrow>
     0.05 \<le> soc_bfg st \<and> soc_bfg st \<le> 0.95 \<and> p_bfg st = 8.0 + soc_bfg st * 8.0
     \<and> 0.05 \<le> soc_bofg st \<and> soc_bofg st \<le> 0.95 \<and> p_bofg st = 8.0 + soc_bofg st * 8.0
     \<and> 0.05 \<le> soc_cog st \<and> soc_cog st \<le> 0.95 \<and> p_cog st = 8.0 + soc_cog st * 8.0"

section \<open>Priority allocation (solvers/rule\_based.py)\<close>

text \<open>
  \<^verbatim>\<open>RuleBasedController.priority_allocate\<close>.  The dict \<^verbatim>\<open>demands\<close> is an association
  list in insertion order, with distinct keys; \<^verbatim>\<open>priorities\<close> is only looked up and is
  a map.  \<^verbatim>\<open>priorities.get(x, 0)\<close>:
\<close>

definition priority_get :: "(string \<rightharpoonup> int) \<Rightarrow> string \<Rightarrow> int" where
  "priority_get priorities x = (case priorities x of None \<Rightarrow> 0 | Some p \<Rightarrow> p)"

text \<open>
  \<^verbatim>\<open>sorted(demands.keys(), key=..., reverse=True)\<close> is a stable sort in descending
  key order: equal keys keep their dict order.  That is the stable ascending sort on
  the negated key.  The model sorts the items, so that each consumer carries the
  demand that the loop reads as \<^verbatim>\<open>demands[consumer]\<close>.
\<close>

definition sorted_consumers ::
    "(string \<times> real) list \<Rightarrow> (string \<rightharpoonup> int) \<Rightarrow> (string \<times> real) list" where
  "sorted_consumers demands priorities =
     sort_key (\<lambda>(consumer, demand). - priority_get priorities consumer) demands"

text \<open>
  The allocation loop with its \<^verbatim>\<open>break\<close>.  The result lists the entries of the dict
  \<^verbatim>\<open>allocation\<close> in insertion order.
\<close>

fun allocate_loop :: "(string \<times> real) list \<Rightarrow> real \<Rightarrow> (string \<times> real) list" where
  "allocate_loop [] remaining = []"
| "allocate_loop ((consumer, demand) # rest) remaining =
     (let allocated = min demand remaining;
          remaining = remaining - allocated
      in (consumer, allocated) # (if remaining \<le> 0 then [] else allocate_loop rest remaining))"

text \<open>The second loop: consumers without an entry get \<open>0.0\<close>.\<close>

definition zero_fill ::
    "(string \<times> real) list \<Rightarrow> (string \<times> real) list \<Rightarrow> (string \<times> real) list" where
  "zero_fill demands allocation =
     allocation @ map (\<lambda>(consumer, demand). (consumer, 0.0))
                      (filter (\<lambda>(consumer, demand). consumer \<notin> set (map fst allocation)) demands)"

definition priority_allocate ::
    "real \<Rightarrow> (string \<times> real) list \<Rightarrow> (string \<rightharpoonup> int) \<Rightarrow> (string \<times> real) list" where
  "priority_allocate available demands priorities =
     zero_fill demands (allocate_loop (sorted_consumers demands priorities) available)"

text \<open>The amount a dict of amounts holds for a consumer (0 for a consumer without entry).\<close>

definition amount :: "(string \<times> real) list \<Rightarrow> string \<Rightarrow> real" where
  "amount allocation c = (case map_of allocation c of None \<Rightarrow> 0 | Some a \<Rightarrow> a)"

section \<open>Typed state, action and reward\<close>

subsection \<open>Records (models/standard\_interfaces.py)\<close>

text \<open>
  The dataclasses of the standard interface.  The fields of \<^verbatim>\<open>GasHolderState\<close> carry
  the prefix \<open>gh_\<close> and those of \<^verbatim>\<open>GasAllocation\<close> the prefix \<open>ga_\<close>, since the gas
  network and the gas holder agent use the same names; \<^verbatim>\<open>StandardState.time\<close> is
  \<open>st_time\<close>.  The free-form \<^verbatim>\<open>metadata\<close> dicts are left out: no function modelled
  here reads them.
\<close>

record GasHolderState =
  gh_soc_bfg :: real
  gh_soc_bofg :: real
  gh_soc_cog :: real
  gh_p_bfg :: real
  gh_p_bofg :: real
  gh_p_cog :: real

record ProductionState =
  bf_bfg_supply :: real
  bf_t_hot_metal :: real
  bf_si_content :: real
  bof_bofg_supply :: real
  coke_cog_supply :: real

record DemandState =
  power_plant_demand :: real
  heating_demand :: real
  priority_level :: real

record StandardState =
  st_time :: int
  gas_holder :: GasHolderState
  production :: ProductionState
  demand :: DemandState




record Reward =
  production_score :: real
  stability_score :: real
  efficiency_score :: real
  total :: real
  breakdown :: "(string \<times> real) list"



subsection \<open>Reward (models/reward\_calculation.py)\<close>









section \<open>Messages and the message bus (protocols/gas\_request.py)\<close>

datatype MessageType =
  GAS_REQUEST | GAS_RESPONSE | BOFG_SURGE_WARNING | STATE_BROADCAST | EMERGENCY_ALERT

text \<open>
  The payload dict \<^verbatim>\<open>data\<close> is an association list in insertion order; the payloads
  modelled here hold numbers only.
\<close>

record Message =
  msg_type :: MessageType
  sender :: string
  receiver :: string
  timestamp :: real
  data :: "(string \<times> real) list"

record BOFGSurgeWarning =
  time_to_blow :: real
  expected_peak :: real
  duration :: real
  current_gh_soc :: real

text \<open>\<^verbatim>\<open>BOFGSurgeWarning.to_message\<close>\<close>

definition to_message :: "BOFGSurgeWarning \<Rightarrow> real \<Rightarrow> Message" where
  "to_message w ts =
     \<lparr> msg_type = BOFG_SURGE_WARNING,
       sender = ''BOFAgent'',
       receiver = ''GasHolderAgent'',
       timestamp = ts,
       data = [(''time_to_blow'', time_to_blow w),
               (''expected_peak'', expected_peak w),
               (''duration'', duration w),
               (''gh_soc'', current_gh_soc w)] \<rparr>"

text \<open>
  \<^verbatim>\<open>MessageBus\<close>; its attribute \<^verbatim>\<open>time\<close> is called \<open>bus_time\<close> (the environment has
  a \<^verbatim>\<open>time\<close> of its own).
\<close>

record MessageBus =
  messages :: "Message list"
  bus_time :: real

definition MessageBus_init :: MessageBus where
  "MessageBus_init = \<lparr> messages = [], bus_time = 0.0 \<rparr>"

definition send :: "MessageBus \<Rightarrow> Message \<Rightarrow> MessageBus" where
  "send bus message = bus\<lparr>messages := messages bus @ [message]\<rparr>"

text \<open>
  \<^verbatim>\<open>MessageBus.get_messages\<close>; the optional \<^verbatim>\<open>msg_type\<close> is \<open>None\<close> when absent, and
  an enum member is always true in the test \<^verbatim>\<open>if msg_type\<close>.
\<close>

definition get_messages :: "MessageBus \<Rightarrow> string \<Rightarrow> MessageType option \<Rightarrow> Message list" where
  "get_messages bus rcv mtype =
     (let filtered = filter (\<lambda>msg. receiver msg = rcv \<or> receiver msg = ''all'') (messages bus)
      in case mtype of
           None \<Rightarrow> filtered
         | Some t \<Rightarrow> filter (\<lambda>msg. msg_type msg = t) filtered)"

definition clear :: "MessageBus \<Rightarrow> MessageBus" where
  "clear bus = bus\<lparr>messages := []\<rparr>"

definition update_time :: "MessageBus \<Rightarrow> real \<Rightarrow> MessageBus" where
  "update_time bus t = bus\<lparr>bus_time := t\<rparr>"

section \<open>The BOF agent (agents/bof\_agent.py)\<close>

text \<open>
  The state dict is a record; its key \<^verbatim>\<open>T_target\<close> is \<open>bof_T_target\<close>, the
  attributes \<^verbatim>\<open>state\<close> and \<^verbatim>\<open>agent_id\<close> are \<open>bof_state\<close> and \<open>bof_agent_id\<close>.
\<close>

record BOF_state =
  oxygen :: real
  scrap_steel :: real
  bof_T_target :: real
  blow_time :: real
  blow_duration :: real

record BOF_Agent =
  bof_agent_id :: string
  bof_state :: BOF_state
  time_to_next_blow :: real

definition BOF_Agent_init :: "string \<Rightarrow> BOF_Agent" where
  "BOF_Agent_init agent_id =
     \<lparr> bof_agent_id = agent_id,
       bof_state = \<lparr> oxygen = 45000, scrap_steel = 20, bof_T_target = 1650,
                     blow_time = 0, blow_duration = 18 \<rparr>,
       time_to_next_blow = 30.0 \<rparr>"

definition BOF_get_state :: "BOF_Agent \<Rightarrow> BOF_state" where
  "BOF_get_state a = bof_state a"

text \<open>Level 1, \<^verbatim>\<open>BOF_Agent._apply_safety_rules\<close>.\<close>

definition BOF_apply_safety_rules :: "BOF_Agent \<Rightarrow> real \<Rightarrow> BOF_Agent" where
  "BOF_apply_safety_rules a P_bof_gas =
     (let s = bof_state a;
          s = s\<lparr>oxygen := clamp (oxygen s) 0.0 BOF_O2_MAX\<rparr>;
          s = (if P_bof_gas > BOF_P_MAX then
                 s\<lparr>oxygen := incremental_adjust (oxygen s) ''decrease'' 0.10 0.0 None\<rparr>
               else s)
      in a\<lparr>bof_state := s\<rparr>)"

text \<open>Level 2, \<^verbatim>\<open>BOF_Agent._apply_process_rules\<close>.\<close>

definition BOF_apply_process_rules :: "BOF_Agent \<Rightarrow> real \<Rightarrow> BOF_Agent" where
  "BOF_apply_process_rules a T_steel =
     (let s = bof_state a; T_target = bof_T_target s
      in if T_steel > T_target + 20 then
           (let s = s\<lparr>oxygen := incremental_adjust (oxygen s) ''decrease'' 0.03 0.0 None\<rparr>;
                s = s\<lparr>scrap_steel :=
                        incremental_adjust (scrap_steel s) ''increase'' 0.02 0.0 (Some 30)\<rparr>
            in a\<lparr>bof_state := s\<rparr>)
         else if T_steel < T_target - 20 then
           a\<lparr>bof_state :=
               s\<lparr>oxygen := incremental_adjust (oxygen s) ''increase'' 0.03 0.0 (Some BOF_O2_MAX)\<rparr>\<rparr>
         else a)"

text \<open>
  Level 3, \<^verbatim>\<open>BOF_Agent._apply_energy_rules\<close>.  The bus is an optional argument; the
  updated bus is returned with the agent.
\<close>

definition BOF_apply_energy_rules ::
    "BOF_Agent \<Rightarrow> real \<Rightarrow> real \<Rightarrow> real \<Rightarrow> MessageBus option \<Rightarrow> BOF_Agent \<times> MessageBus option" where
  "BOF_apply_energy_rules a bof_gas_current SOC_bofg P_bofg message_bus =
     (let message_bus =
            (case message_bus of
               None \<Rightarrow> None
             | Some bus \<Rightarrow>
                 if time_to_next_blow a \<le> 2.0 then
                   (let warning = \<lparr> time_to_blow = time_to_next_blow a,
                                     expected_peak = 60000,
                                     duration = blow_duration (bof_state a),
                                     current_gh_soc = SOC_bofg \<rparr>
                    in Some (send bus (to_message warning (bus_time bus))))
                 else Some bus);
          bof_gas_design = 50000;
          s = bof_state a;
          a = (if bof_gas_current > bof_gas_design * 1.3 \<and> P_bofg > 14 then
                 a\<lparr>bof_state :=
                     s\<lparr>oxygen := incremental_adjust (oxygen s) ''decrease'' 0.10 0.0 None\<rparr>\<rparr>
               else a)
      in (a, message_bus))"

text \<open>\<^verbatim>\<open>BOF_Agent.step\<close>; the Python return value is \<open>BOF_get_state\<close> of the agent.\<close>

definition BOF_step ::
    "BOF_Agent \<Rightarrow> observations \<Rightarrow> MessageBus option \<Rightarrow> BOF_Agent \<times> MessageBus option" where
  "BOF_step a observations message_bus =
     (let T_steel = as_num (obs_get observations ''T_steel'' (Num 1650));
          P_bof_gas = as_num (obs_get observations ''P_bof_gas'' (Num 12.0));
          bof_gas_current = as_num (obs_get observations ''bof_gas_current'' (Num 30000));
          SOC_bofg = as_num (obs_get observations ''SOC_bofg'' (Num 0.5));
          P_bofg = as_num (obs_get observations ''P_bofg'' (Num 12.0));
          a = BOF_apply_safety_rules a P_bof_gas;
          a = BOF_apply_process_rules a T_steel;
          (a, message_bus) = BOF_apply_energy_rules a bof_gas_current SOC_bofg P_bofg message_bus;
          a = a\<lparr>time_to_next_blow := max 0 (time_to_next_blow a - 1.0)\<rparr>
      in (a, message_bus))"

section \<open>The coke oven agent (agents/coke\_oven\_agent.py)\<close>

record CO_state =
  heating_gas_input :: real
  pushing_rate :: real
  co_T_target :: real

record CokeOven_Agent =
  co_agent_id :: string
  co_state :: CO_state
  T_band :: real

definition CokeOven_Agent_init :: "string \<Rightarrow> CokeOven_Agent" where
  "CokeOven_Agent_init agent_id =
     \<lparr> co_agent_id = agent_id,
       co_state = \<lparr> heating_gas_input = 15000, pushing_rate = 1.0, co_T_target = 1200 \<rparr>,
       T_band = 20 \<rparr>"

definition CO_apply_safety_rules :: "CokeOven_Agent \<Rightarrow> real \<Rightarrow> CokeOven_Agent" where
  "CO_apply_safety_rules a T_furnace =
     (let s = co_state a;
          s = (if T_furnace > CO_TEMP_MAX then
                 s\<lparr>heating_gas_input :=
                     incremental_adjust (heating_gas_input s) ''decrease'' 0.10 5000 None\<rparr>
               else s);
          s = (if T_furnace < CO_TEMP_MIN then
                 s\<lparr>heating_gas_input :=
                     incremental_adjust (heating_gas_input s) ''increase'' 0.10 0.0 (Some 25000)\<rparr>
               else s)
      in a\<lparr>co_state := s\<rparr>)"

definition CO_apply_process_rules :: "CokeOven_Agent \<Rightarrow> real \<Rightarrow> CokeOven_Agent" where
  "CO_apply_process_rules a T_furnace =
     (let s = co_state a; T_target = co_T_target s
      in if T_furnace < T_target - T_band a then
           a\<lparr>co_state := s\<lparr>heating_gas_input :=
               incremental_adjust (heating_gas_input s) ''increase'' 0.03 0.0 (Some 25000)\<rparr>\<rparr>
         else if T_furnace > T_target + T_band a then
           a\<lparr>co_state := s\<lparr>heating_gas_input :=
               incremental_adjust (heating_gas_input s) ''decrease'' 0.03 5000 None\<rparr>\<rparr>
         else a)"

definition CO_apply_energy_rules :: "CokeOven_Agent \<Rightarrow> real \<Rightarrow> CokeOven_Agent" where
  "CO_apply_energy_rules a SOC_cog =
     (let s = co_state a;
          s = (if SOC_cog > 0.85 then
                 s\<lparr>pushing_rate := incremental_adjust (pushing_rate s) ''decrease'' 0.05 0.7 None\<rparr>
               else if SOC_cog < 0.75 then
                 s\<lparr>pushing_rate := min 1.0 (pushing_rate s * 1.02)\<rparr>
               else s);
          s = (if SOC_cog < 0.25 then
                 s\<lparr>pushing_rate :=
                     incremental_adjust (pushing_rate s) ''increase'' 0.03 0.0 (Some 1.2)\<rparr>
               else if SOC_cog > 0.35 then
                 (if pushing_rate s > 1.0 then
                    s\<lparr>pushing_rate := max 1.0 (pushing_rate s * 0.98)\<rparr>
                  else s)
               else s)
      in a\<lparr>co_state := s\<rparr>)"

text \<open>\<^verbatim>\<open>CokeOven_Agent.step\<close>; it reads \<^verbatim>\<open>COG_demand\<close> and never uses it or the bus.\<close>

definition CO_step :: "CokeOven_Agent \<Rightarrow> observations \<Rightarrow> CokeOven_Agent" where
  "CO_step a observations =
     (let T_furnace = as_num (obs_get observations ''T_furnace'' (Num 1200));
          SOC_cog = as_num (obs_get observations ''SOC_cog'' (Num 0.5));
          a = CO_apply_safety_rules a T_furnace;
          a = CO_apply_process_rules a T_furnace;
          a = CO_apply_energy_rules a SOC_cog
      in a)"

section \<open>The gas holder agent (agents/gas\_holder\_agent.py)\<close>

text \<open>
  The state dict is a record in the key order of the dict; the attributes \<^verbatim>\<open>state\<close>
  and \<^verbatim>\<open>agent_id\<close> are \<open>gh_state\<close> and \<open>gh_agent_id\<close>.
\<close>

record GH_state =
  bfg_to_pp :: real
  bfg_to_heating :: real
  bofg_to_pp :: real
  bofg_to_heating :: real
  cog_to_heating :: real
  cog_to_bf :: real

record GasHolder_Agent =
  gh_agent_id :: string
  gh_state :: GH_state
  surge_warning_active :: bool

definition GasHolder_Agent_init :: "string \<Rightarrow> GasHolder_Agent" where
  "GasHolder_Agent_init agent_id =
     \<lparr> gh_agent_id = agent_id,
       gh_state = \<lparr> bfg_to_pp = 50000, bfg_to_heating = 30000,
                    bofg_to_pp = 20000, bofg_to_heating = 10000,
                    cog_to_heating = 8000, cog_to_bf = 5000 \<rparr>,
       surge_warning_active = False \<rparr>"

definition GH_get_state :: "GasHolder_Agent \<Rightarrow> GH_state" where
  "GH_get_state a = gh_state a"

text \<open>The returned action as the dict it is, in key order.\<close>

definition GH_state_items :: "GH_state \<Rightarrow> (string \<times> real) list" where
  "GH_state_items s =
     [(''bfg_to_pp'', bfg_to_pp s), (''bfg_to_heating'', bfg_to_heating s),
      (''bofg_to_pp'', bofg_to_pp s), (''bofg_to_heating'', bofg_to_heating s),
      (''cog_to_heating'', cog_to_heating s), (''cog_to_bf'', cog_to_bf s)]"

text \<open>\<^verbatim>\<open>GasHolder_Agent._control_bfgh\<close>; each \<^verbatim>\<open>return\<close> ends the cascade.\<close>

definition control_bfgh :: "GH_state \<Rightarrow> real \<Rightarrow> real \<Rightarrow> GH_state" where
  "control_bfgh s soc p =
     (if p > GH_P_EMERGENCY then
        (let s = s\<lparr>bfg_to_pp :=
                     incremental_adjust (bfg_to_pp s) ''increase'' 0.20 0.0 (Some 80000)\<rparr>
         in s\<lparr>bfg_to_heating :=
                 incremental_adjust (bfg_to_heating s) ''increase'' 0.10 0.0 (Some 50000)\<rparr>)
      else if soc < GH_SOC_MIN then
        (let s = s\<lparr>bfg_to_pp := incremental_adjust (bfg_to_pp s) ''decrease'' 0.20 10000 None\<rparr>
         in s\<lparr>bfg_to_heating :=
                 incremental_adjust (bfg_to_heating s) ''decrease'' 0.20 5000 None\<rparr>)
      else if soc > 0.85 \<or> p > 14 then
        (let s = s\<lparr>bfg_to_pp :=
                     incremental_adjust (bfg_to_pp s) ''increase'' 0.10 0.0 (Some 80000)\<rparr>
         in s\<lparr>bfg_to_heating :=
                 incremental_adjust (bfg_to_heating s) ''increase'' 0.05 0.0 (Some 50000)\<rparr>)
      else if soc < 0.25 \<or> p < 9 then
        (let s = s\<lparr>bfg_to_pp := incremental_adjust (bfg_to_pp s) ''decrease'' 0.10 10000 None\<rparr>
         in s\<lparr>bfg_to_heating :=
                 incremental_adjust (bfg_to_heating s) ''decrease'' 0.08 5000 None\<rparr>)
      else if (0.35 < soc \<and> soc < 0.75) \<and> (10 < p \<and> p < 13) then
        (let nominal_pp = 50000;
             nominal_heating = 30000;
             s = (if bfg_to_pp s > nominal_pp then s\<lparr>bfg_to_pp := bfg_to_pp s * 0.98\<rparr>
                  else if bfg_to_pp s < nominal_pp then s\<lparr>bfg_to_pp := bfg_to_pp s * 1.02\<rparr>
                  else s);
             s = (if bfg_to_heating s > nominal_heating
                  then s\<lparr>bfg_to_heating := bfg_to_heating s * 0.98\<rparr>
                  else if bfg_to_heating s < nominal_heating
                  then s\<lparr>bfg_to_heating := bfg_to_heating s * 1.02\<rparr>
                  else s)
         in s)
      else s)"

text \<open>
  \<^verbatim>\<open>GasHolder_Agent._control_bofgh\<close>: the surge branch comes first and returns.
\<close>

definition control_bofgh :: "GH_state \<Rightarrow> real \<Rightarrow> real \<Rightarrow> bool \<Rightarrow> GH_state" where
  "control_bofgh s soc p surge_warning =
     (if surge_warning then
        (let s = s\<lparr>bofg_to_pp := incremental_adjust (bofg_to_pp s) ''decrease'' 0.20 5000 None\<rparr>
         in s\<lparr>bofg_to_heating :=
                 incremental_adjust (bofg_to_heating s) ''decrease'' 0.15 3000 None\<rparr>)
      else if p > GH_P_EMERGENCY then
        s\<lparr>bofg_to_pp := incremental_adjust (bofg_to_pp s) ''increase'' 0.20 0.0 (Some 40000)\<rparr>
      else if soc < GH_SOC_MIN then
        s\<lparr>bofg_to_pp := incremental_adjust (bofg_to_pp s) ''decrease'' 0.20 5000 None\<rparr>
      else if soc > 0.85 \<or> p > 14 then
        s\<lparr>bofg_to_pp := incremental_adjust (bofg_to_pp s) ''increase'' 0.10 0.0 (Some 40000)\<rparr>
      else if soc < 0.25 \<or> p < 9 then
        s\<lparr>bofg_to_pp := incremental_adjust (bofg_to_pp s) ''decrease'' 0.10 5000 None\<rparr>
      else s)"

text \<open>\<^verbatim>\<open>GasHolder_Agent._control_cogh\<close>\<close>

definition control_cogh :: "GH_state \<Rightarrow> real \<Rightarrow> real \<Rightarrow> GH_state" where
  "control_cogh s soc p =
     (if p > GH_P_EMERGENCY then
        s\<lparr>cog_to_heating :=
            incremental_adjust (cog_to_heating s) ''increase'' 0.20 0.0 (Some 15000)\<rparr>
      else if soc < GH_SOC_MIN then
        (let s = s\<lparr>cog_to_heating :=
                     incremental_adjust (cog_to_heating s) ''decrease'' 0.20 2000 None\<rparr>
         in s\<lparr>cog_to_bf := incremental_adjust (cog_to_bf s) ''decrease'' 0.20 1000 None\<rparr>)
      else if soc > 0.85 \<or> p > 14 then
        (let s = s\<lparr>cog_to_heating :=
                     incremental_adjust (cog_to_heating s) ''increase'' 0.10 0.0 (Some 15000)\<rparr>
         in s\<lparr>cog_to_bf := incremental_adjust (cog_to_bf s) ''increase'' 0.05 0.0 (Some 10000)\<rparr>)
      else if soc < 0.25 \<or> p < 9 then
        (let s = s\<lparr>cog_to_heating :=
                     incremental_adjust (cog_to_heating s) ''decrease'' 0.10 2000 None\<rparr>
         in s\<lparr>cog_to_bf := incremental_adjust (cog_to_bf s) ''decrease'' 0.08 1000 None\<rparr>)
      else s)"

text \<open>
  \<^verbatim>\<open>GasHolder_Agent.step\<close>.  A bus object is always true in \<^verbatim>\<open>if message_bus\<close>; a
  list is true when it is not empty.  The agent only reads the bus.
\<close>

definition GH_step :: "GasHolder_Agent \<Rightarrow> observations \<Rightarrow> MessageBus option \<Rightarrow> GasHolder_Agent" where
  "GH_step a observations message_bus =
     (let soc_bfg = as_num (obs_get observations ''soc_bfg'' (Num 0.5));
          p_bfg = as_num (obs_get observations ''p_bfg'' (Num 12.0));
          soc_bofg = as_num (obs_get observations ''soc_bofg'' (Num 0.5));
          p_bofg = as_num (obs_get observations ''p_bofg'' (Num 12.0));
          soc_cog = as_num (obs_get observations ''soc_cog'' (Num 0.5));
          p_cog = as_num (obs_get observations ''p_cog'' (Num 12.0));
          a = (case message_bus of
                 None \<Rightarrow> a
               | Some bus \<Rightarrow>
                   (let surge_warnings = get_messages bus (gh_agent_id a) (Some BOFG_SURGE_WARNING)
                    in if surge_warnings \<noteq> [] then a\<lparr>surge_warning_active := True\<rparr> else a));
          s = gh_state a;
          s = control_bfgh s soc_bfg p_bfg;
          s = control_bofgh s soc_bofg p_bofg (surge_warning_active a);
          s = control_cogh s soc_cog p_cog
      in a\<lparr>gh_state := s, surge_warning_active := False\<rparr>)"

section \<open>The agent phase of the driver loop (main.py)\<close>

text \<open>
  One pass through the loop body of \<^verbatim>\<open>run_mas_simulation\<close> up to the environment
  step: the environment's bus is cleared, then the four agents are stepped in the
  fixed order on the same observation.  Each call is \<^verbatim>\<open>agent.step(obs)\<close>: the bus
  argument takes its default \<^verbatim>\<open>None\<close>.
\<close>

record Agents =
  bf_agent :: BF_Agent
  bof_agent :: BOF_Agent
  co_agent :: CokeOven_Agent
  gh_agent :: GasHolder_Agent

definition Agents_init :: Agents where
  "Agents_init =
     \<lparr> bf_agent = BF_Agent_init ''BF1'', bof_agent = BOF_Agent_init ''BOF1'',
       co_agent = CokeOven_Agent_init ''CO1'', gh_agent = GasHolder_Agent_init ''GH1'' \<rparr>"

definition agents_decide :: "MessageBus \<Rightarrow> Agents \<Rightarrow> observations \<Rightarrow> MessageBus \<times> Agents" where
  "agents_decide bus ags obs =
     (let bus = clear bus;
          bf = BF_step (bf_agent ags) obs;
          (bof, unused_bus) = BOF_step (bof_agent ags) obs None;
          co = CO_step (co_agent ags) obs;
          gh = GH_step (gh_agent ags) obs None
      in (bus, \<lparr> bf_agent = bf, bof_agent = bof, co_agent = co, gh_agent = gh \<rparr>))"

text \<open>
  The BOF agent after \<open>n\<close> steps on the empty observation map (every key takes its
  default) without a bus.
\<close>

definition BOF_idle_steps :: "nat \<Rightarrow> BOF_Agent \<Rightarrow> BOF_Agent" where
  "BOF_idle_steps n a = ((\<lambda>a. fst (BOF_step a Map.empty None)) ^^ n) a"

section \<open>The simulation environment (env/mas\_sim\_env.py)\<close>

text \<open>
  The observation dict \<^verbatim>\<open>self.state\<close> is created with a fixed key set in
  \<^verbatim>\<open>__init__\<close>; it is a record whose fields carry the prefix \<open>env_\<close> (the gas network
  and the agents use the same key names).  The attributes \<^verbatim>\<open>time\<close>, \<^verbatim>\<open>state\<close>
  and \<^verbatim>\<open>message_bus\<close> are \<open>env_time\<close>, \<open>env_state\<close> and \<open>env_message_bus\<close>.  The
  flag \<open>use_twins\<close> is the one left after the import and the construction of the
  twins were tried.
\<close>

record EnvState =
  env_Si :: real
  env_T_hot_metal :: real
  env_pig_iron_production :: real
  env_T_steel :: real
  env_liquid_steel :: real
  env_T_furnace :: real
  env_coke_production :: real
  env_soc_bfg :: real
  env_p_bfg :: real
  env_bfg_supply :: real
  env_soc_bofg :: real
  env_p_bofg :: real
  env_bofg_supply :: real
  env_soc_cog :: real
  env_p_cog :: real
  env_cog_supply :: real
  env_COG_available :: real
  env_O2_available :: real
  env_peak_electricity :: bool

record MAS_SimEnv =
  env_message_bus :: MessageBus
  use_twins :: bool
  env_time :: real
  timestep :: real
  gas_network :: GasNetwork
  env_state :: EnvState

text \<open>The initial observation values written in \<^verbatim>\<open>MAS_SimEnv.__init__\<close>.\<close>

definition initial_env_state :: EnvState where
  "initial_env_state =
     \<lparr> env_Si = 0.45, env_T_hot_metal = 1500, env_pig_iron_production = 200,
       env_T_steel = 1650, env_liquid_steel = 95,
       env_T_furnace = 1200, env_coke_production = 72,
       env_soc_bfg = 0.5, env_p_bfg = 12.0, env_bfg_supply = 100000,
       env_soc_bofg = 0.5, env_p_bofg = 12.0, env_bofg_supply = 30000,
       env_soc_cog = 0.5, env_p_cog = 12.0, env_cog_supply = 15000,
       env_COG_available = 15000, env_O2_available = 50000,
       env_peak_electricity = False \<rparr>"

definition MAS_SimEnv_init :: "bool \<Rightarrow> MAS_SimEnv" where
  "MAS_SimEnv_init twins =
     \<lparr> env_message_bus = MessageBus_init,
       use_twins = twins,
       env_time = 0.0,
       timestep = 1.0,
       gas_network = GasNetwork_init twins,
       env_state = initial_env_state \<rparr>"

text \<open>\<^verbatim>\<open>d.get(key, default)\<close> on an action dict.\<close>

definition dict_get :: "(string \<times> real) list \<Rightarrow> string \<Rightarrow> real \<Rightarrow> real" where
  "dict_get d key dflt = (case map_of d key of None \<Rightarrow> dflt | Some v \<Rightarrow> v)"

text \<open>\<^verbatim>\<open>self.state.update(gas_network_state.to_dict())\<close>\<close>

definition merge_gas_network_state :: "EnvState \<Rightarrow> GasNetworkState \<Rightarrow> EnvState" where
  "merge_gas_network_state st g =
     st\<lparr>env_soc_bfg := soc_bfg g, env_p_bfg := p_bfg g,
        env_soc_bofg := soc_bofg g, env_p_bofg := p_bofg g,
        env_soc_cog := soc_cog g, env_p_cog := p_cog g\<rparr>"

text \<open>
  \<^verbatim>\<open>MAS_SimEnv._step_simple_dynamics\<close>.  The draw \<^verbatim>\<open>np.random.normal(0, 0.01)\<close> is the
  argument \<open>noise\<close>.  The keys read with \<^verbatim>\<open>self.state.get\<close> are always present.
\<close>

definition step_simple_dynamics ::
    "MAS_SimEnv \<Rightarrow> (string \<times> real) list \<Rightarrow> (string \<times> real) list \<Rightarrow> real \<Rightarrow> MAS_SimEnv" where
  "step_simple_dynamics env bf_action gh_action noise =
     (let st = env_state env;
          wind = dict_get bf_action ''wind_volume'' 4000;
          st = st\<lparr>env_pig_iron_production := wind / 20\<rparr>;
          st = st\<lparr>env_bfg_supply := wind * 25\<rparr>;
          gas_production = [''bfg'' \<mapsto> env_bfg_supply st,
                            ''bofg'' \<mapsto> env_bofg_supply st,
                            ''cog'' \<mapsto> env_cog_supply st];
          gn = update (gas_network env) gas_production gh_action (timestep env);
          st = merge_gas_network_state st (gn_state gn);
          st = st\<lparr>env_Si := env_Si st + noise\<rparr>;
          st = st\<lparr>env_Si := np_clip (env_Si st) 0.3 0.6\<rparr>
      in env\<lparr>gas_network := gn, env_state := st\<rparr>)"

text \<open>
  \<^verbatim>\<open>MAS_SimEnv.step\<close>.  With twins the physical outputs come from the external twin
  models: that phase is the argument \<open>twin_phase\<close>, a map on the environment.  The
  action of an agent that is missing from \<^verbatim>\<open>agent_actions\<close> is the empty dict.
\<close>

definition MAS_SimEnv_step ::
    "(MAS_SimEnv \<Rightarrow> MAS_SimEnv) \<Rightarrow> MAS_SimEnv \<Rightarrow> (string \<rightharpoonup> (string \<times> real) list) \<Rightarrow> real
     \<Rightarrow> MAS_SimEnv" where
  "MAS_SimEnv_step twin_phase env agent_actions noise =
     (let env = env\<lparr>env_time := env_time env + timestep env\<rparr>;
          env = env\<lparr>env_message_bus := update_time (env_message_bus env) (env_time env)\<rparr>;
          bf_action = (case agent_actions ''BF'' of None \<Rightarrow> [] | Some d \<Rightarrow> d);
          gh_action = (case agent_actions ''GasHolder'' of None \<Rightarrow> [] | Some d \<Rightarrow> d)
      in if use_twins env then twin_phase env
         else step_simple_dynamics env bf_action gh_action noise)"

text \<open>\<^verbatim>\<open>MAS_SimEnv.get_observations\<close> returns a copy of the state.\<close>

definition get_observations :: "MAS_SimEnv \<Rightarrow> EnvState" where
  "get_observations env = env_state env"

text \<open>
  \<^verbatim>\<open>MAS_SimEnv.reset\<close>; the Python return value is \<open>get_observations\<close> of the result.
\<close>

definition MAS_SimEnv_reset :: "MAS_SimEnv \<Rightarrow> MAS_SimEnv" where
  "MAS_SimEnv_reset env =
     (let env = env\<lparr>env_time := 0.0\<rparr>;
          env = env\<lparr>env_message_bus := clear (env_message_bus env)\<rparr>;
          env = env\<lparr>gas_network := reset (gas_network env)\<rparr>;
          st = env_state env;
          st = st\<lparr>env_soc_bfg := 0.5\<rparr>;
          st = st\<lparr>env_soc_bofg := 0.5\<rparr>;
          st = st\<lparr>env_soc_cog := 0.5\<rparr>;
          st = st\<lparr>env_Si := 0.45\<rparr>;
          st = st\<lparr>env_T_hot_metal := 1500\<rparr>;
          st = st\<lparr>env_T_steel := 1650\<rparr>
      in env\<lparr>env_state := st\<rparr>)"

section \<open>Properties of the control primitives\<close>

lemma clamp_bounds: "lo \<le> hi \<Longrightarrow> lo \<le> clamp v lo hi \<and> clamp v lo hi \<le> hi"
  by (simp add: clamp_def)

text \<open>
  Claim C8.  \<open>hysteresis_check\<close> answers active whenever the value is above
  \<open>target + upper_band\<close> or below \<open>target - lower_band\<close>, whatever the incoming flag
  is, and, when the incoming flag is active, also whenever the value lies within the
  half band \<open>[target - lower_band/2, target + upper_band/2]\<close>.  With target 100 and
  both bands 10, an inactive flag becomes active at 112, and an active flag at 103
  stays active with the reason \<open>within_hysteresis\<close>.
\<close>

theorem hysteresis_check_activates:
  "(v > t + u \<or> v < t - l \<longrightarrow> fst (hysteresis_check v t u l s))
   \<and> (t - l / 2 \<le> v \<and> v \<le> t + u / 2 \<longrightarrow> fst (hysteresis_check v t u l True))
   \<and> fst (hysteresis_check 112 100 10 10 False)
   \<and> hysteresis_check 103 100 10 10 True = (True, ''within_hysteresis'')"
  by (simp add: hysteresis_check_def)

theorem hysteresis_check_activates_witness:
  "((112::real) > 100 + 10 \<or> (112::real) < 100 - 10)
   \<and> fst (hysteresis_check 112 100 10 10 False)
   \<and> ((100::real) - 10 / 2 \<le> 103 \<and> (103::real) \<le> 100 + 10 / 2)
   \<and> fst (hysteresis_check 103 100 10 10 True)"
  using hysteresis_check_activates [of 112 100 10 10 False]
    hysteresis_check_activates [of 103 100 10 10 False]
  by simp

text \<open>
  Claim C1: with the incoming flag active and the value between the outer thresholds,
  the flag stays active until the value is back inside the half band, and is released
  only there.  That is the hysteresis the docstring of \<open>hysteresis_check\<close> announces
  ("to avoid oscillation").  The code does the opposite.  With target 100 and both
  bands 10, at 107 (between the outer thresholds 90 and 110, outside the half band
  \<open>[95, 105]\<close>) an active flag is answered inactive.  Fed back along the values
  112, 109, 111, 109, 111, 109 around the upper threshold the flag toggles at every
  call; and once set at 112 it is never released at 103, 100, 96, 105, all inside the
  half band.
\<close>

theorem hysteresis_check_releases_early:
  "(100::real) - 10 \<le> 107 \<and> (107::real) \<le> 100 + 10
   \<and> \<not> ((100::real) - 10 / 2 \<le> 107 \<and> (107::real) \<le> 100 + 10 / 2)
   \<and> hysteresis_check 107 100 10 10 True = (False, ''normal'')
   \<and> hysteresis_flags 100 10 10 False [112, 109, 111, 109, 111, 109]
       = [True, False, True, False, True, False]
   \<and> hysteresis_flags 100 10 10 False [112, 103, 100, 96, 105]
       = [True, True, True, True, True]"
  by (simp add: hysteresis_check_def)

section \<open>Properties of the blast furnace agent\<close>

lemmas BF_limit_defs =
  BF_within_limits_def BF_WIND_MIN_def BF_WIND_MAX_def BF_O2_MAX_def BF_PCI_MAX_def

lemma BF_safety_keeps:
  "BF_within_limits (bf_state a) \<Longrightarrow>
   BF_within_limits (bf_state (BF_apply_safety_rules a Si T O2))"
  by (simp add: BF_apply_safety_rules_def BF_limit_defs incremental_adjust_def clamp_def Let_def)

lemma BF_si_high_keeps:
  "BF_within_limits (bf_state a) \<Longrightarrow> BF_within_limits (bf_state (BF_process_si_high a Si))"
  by (simp add: BF_process_si_high_def BF_limit_defs incremental_adjust_def clamp_def Let_def)

lemma BF_si_low_keeps:
  "BF_within_limits (bf_state a) \<Longrightarrow> BF_within_limits (bf_state (BF_process_si_low a Si))"
  by (simp add: BF_process_si_low_def BF_limit_defs incremental_adjust_def clamp_def Let_def)

lemma BF_gh_full_keeps:
  "BF_within_limits (bf_state a) \<Longrightarrow> BF_within_limits (bf_state (BF_energy_gh_full a soc p))"
  by (simp add: BF_energy_gh_full_def BF_limit_defs incremental_adjust_def clamp_def Let_def)

lemma BF_gh_empty_keeps:
  "BF_within_limits (bf_state a) \<Longrightarrow> BF_within_limits (bf_state (BF_energy_gh_empty a soc p))"
  by (simp add: BF_energy_gh_empty_def BF_limit_defs incremental_adjust_def clamp_def Let_def)

lemma BF_cog_shortage_keeps:
  "BF_within_limits (bf_state a) \<Longrightarrow>
   BF_within_limits (bf_state (BF_energy_cog_shortage a av rq))"
  by (simp add: BF_energy_cog_shortage_def BF_limit_defs incremental_adjust_def clamp_def Let_def)

lemma BF_o2_shortage_keeps:
  "BF_within_limits (bf_state a) \<Longrightarrow> BF_within_limits (bf_state (BF_energy_o2_shortage a av))"
  by (simp add: BF_energy_o2_shortage_def BF_limit_defs incremental_adjust_def clamp_def Let_def)

lemma BF_economic_keeps:
  "BF_within_limits (bf_state a) \<Longrightarrow>
   BF_within_limits (bf_state (BF_apply_economic_rules a peak))"
  by (simp add: BF_apply_economic_rules_def BF_limit_defs incremental_adjust_def clamp_def Let_def)

lemma BF_step_keeps:
  "BF_within_limits (bf_state a) \<Longrightarrow> BF_within_limits (bf_state (BF_step a obs))"
  unfolding BF_step_def Let_def BF_apply_energy_rules_def BF_apply_process_rules_def
  by (intro BF_economic_keeps BF_o2_shortage_keeps BF_cog_shortage_keeps BF_gh_empty_keeps
      BF_gh_full_keeps BF_si_low_keeps BF_si_high_keeps BF_safety_keeps)

lemma BF_init_within_limits: "BF_within_limits (bf_state (BF_Agent_init agent_id))"
  by (simp add: BF_Agent_init_def BF_limit_defs)

lemma BF_run_keeps:
  "BF_within_limits (bf_state a) \<Longrightarrow> BF_within_limits (bf_state (BF_run a obss))"
  unfolding BF_run_def
  by (induction obss arbitrary: a) (simp_all add: BF_step_keeps)

text \<open>
  Claim C2.  After any sequence of \<open>BF_step\<close> calls from the constructed agent, on
  arbitrary observation maps (keys may be missing, values may be any number or bool),
  the returned state has \<open>wind_volume\<close> in \<open>[1000, 8000]\<close>, \<open>O2_enrichment\<close> in
  \<open>[0, 6]\<close> and \<open>PCI\<close> in \<open>[0, 200]\<close>, these being the table entries
  \<open>BF_WIND_MIN\<close>, \<open>BF_WIND_MAX\<close>, \<open>BF_O2_MAX\<close>, \<open>BF_PCI_MAX\<close>.  The step is a total
  function of the agent and the observation map: it has no failing branch, which is
  the model's form of "no exception is raised".
\<close>

theorem BF_step_within_safety_limits:
  "BF_WIND_MIN = 1000 \<and> BF_WIND_MAX = 8000 \<and> BF_O2_MAX = 6.0 \<and> BF_PCI_MAX = 200
   \<and> 1000 \<le> wind_volume (BF_get_state (BF_run (BF_Agent_init agent_id) obss))
   \<and> wind_volume (BF_get_state (BF_run (BF_Agent_init agent_id) obss)) \<le> 8000
   \<and> 0 \<le> O2_enrichment (BF_get_state (BF_run (BF_Agent_init agent_id) obss))
   \<and> O2_enrichment (BF_get_state (BF_run (BF_Agent_init agent_id) obss)) \<le> 6.0
   \<and> 0 \<le> PCI (BF_get_state (BF_run (BF_Agent_init agent_id) obss))
   \<and> PCI (BF_get_state (BF_run (BF_Agent_init agent_id) obss)) \<le> 200"
  using BF_run_keeps [OF BF_init_within_limits, of agent_id obss]
  by (simp add: BF_limit_defs BF_get_state_def)

section \<open>Properties of the gas network\<close>

lemma np_clip_bounds: "lo \<le> hi \<Longrightarrow> lo \<le> np_clip a lo hi \<and> np_clip a lo hi \<le> hi"
  by (simp add: np_clip_def)

lemma update_holder_state:
  "gn_state (update_holder n g f t) =
     (let c = np_clip ((case g of BFG \<Rightarrow> soc_bfg (gn_state n)
                               | BOFG \<Rightarrow> soc_bofg (gn_state n)
                               | COG \<Rightarrow> soc_cog (gn_state n))
                       + (f / 3600) * t * 60 / capacities n g) 0.05 0.95;
          p = p_min n + c * p_range n;
          model = (case g of BFG \<Rightarrow> bfgh n | BOFG \<Rightarrow> bofgh n | COG \<Rightarrow> cogh n);
          l = (if use_state_space_models n then fst (ss_call model f) else c)
      in case g of
           BFG \<Rightarrow> (gn_state n)\<lparr>soc_bfg := c, p_bfg := p, bfg_level := l\<rparr>
         | BOFG \<Rightarrow> (gn_state n)\<lparr>soc_bofg := c, p_bofg := p, bofg_level := l\<rparr>
         | COG \<Rightarrow> (gn_state n)\<lparr>soc_cog := c, p_cog := p, cog_level := l\<rparr>)"
  unfolding update_holder_def Let_def
  by (cases g; cases "use_state_space_models n"; simp add: ss_call_def)

lemma update_holder_params:
  "p_min (update_holder n g f t) = p_min n \<and> p_range (update_holder n g f t) = p_range n
   \<and> capacities (update_holder n g f t) = capacities n
   \<and> use_state_space_models (update_holder n g f t) = use_state_space_models n"
  unfolding update_holder_def Let_def
  by (cases g; cases "use_state_space_models n"; simp add: ss_call_def)

lemma soc_pressure_ok_bfg:
  assumes "soc_pressure_ok st" "0.05 \<le> c" "c \<le> 0.95"
  shows "soc_pressure_ok (st\<lparr>soc_bfg := c, p_bfg := 8 + c * 8, bfg_level := l\<rparr>)"
  using assms by (simp add: soc_pressure_ok_def)

lemma soc_pressure_ok_bofg:
  assumes "soc_pressure_ok st" "0.05 \<le> c" "c \<le> 0.95"
  shows "soc_pressure_ok (st\<lparr>soc_bofg := c, p_bofg := 8 + c * 8, bofg_level := l\<rparr>)"
  using assms by (simp add: soc_pressure_ok_def)

lemma soc_pressure_ok_cog:
  assumes "soc_pressure_ok st" "0.05 \<le> c" "c \<le> 0.95"
  shows "soc_pressure_ok (st\<lparr>soc_cog := c, p_cog := 8 + c * 8, cog_level := l\<rparr>)"
  using assms by (simp add: soc_pressure_ok_def)

lemma update_holder_ok:
  assumes "p_min n = 8" "p_range n = 8" "soc_pressure_ok (gn_state n)"
  shows "soc_pressure_ok (gn_state (update_holder n g f t))"
proof -
  have b: "0.05 \<le> np_clip a 0.05 0.95 \<and> np_clip a 0.05 0.95 \<le> 0.95" for a
    by (rule np_clip_bounds) simp
  show ?thesis
    unfolding update_holder_state Let_def assms(1,2)
    by (cases g)
       (simp_all only: gas_type.case soc_pressure_ok_bfg soc_pressure_ok_bofg
          soc_pressure_ok_cog assms(3) b)
qed

lemma update_ok:
  assumes "p_min n = 8" "p_range n = 8" "soc_pressure_ok (gn_state n)"
  shows "soc_pressure_ok (gn_state (update n pr dm t))
         \<and> p_min (update n pr dm t) = 8 \<and> p_range (update n pr dm t) = 8"
  unfolding update_def Let_def
  using assms by (simp add: update_holder_ok update_holder_params)

lemma reset_ok:
  assumes "p_min n = 8" "p_range n = 8"
  shows "soc_pressure_ok (gn_state (reset n)) \<and> p_min (reset n) = 8 \<and> p_range (reset n) = 8"
  using assms by (simp add: reset_def nominal_state_def soc_pressure_ok_def)

lemma init_ok:
  "soc_pressure_ok (gn_state (GasNetwork_init u))
   \<and> p_min (GasNetwork_init u) = 8 \<and> p_range (GasNetwork_init u) = 8"
  by (simp add: GasNetwork_init_def nominal_state_def soc_pressure_ok_def)

lemma gn_run_ok:
  assumes "p_min n = 8" "p_range n = 8" "soc_pressure_ok (gn_state n)"
  shows "soc_pressure_ok (gn_state (gn_run n calls))
         \<and> p_min (gn_run n calls) = 8 \<and> p_range (gn_run n calls) = 8"
  using assms unfolding gn_run_def
proof (induction calls arbitrary: n)
  case Nil
  then show ?case by simp
next
  case (Cons c calls)
  have "soc_pressure_ok (gn_state (gn_apply n c))
        \<and> p_min (gn_apply n c) = 8 \<and> p_range (gn_apply n c) = 8"
    using Cons.prems by (cases c) (simp_all add: update_ok reset_ok)
  then show ?case using Cons.IH by simp
qed

text \<open>
  Claim C3.  After construction, and after any sequence of \<open>update\<close> calls (any
  production map, demand map and timestep) and \<open>reset\<close> calls on the constructed
  network, each of \<open>soc_bfg\<close>, \<open>soc_bofg\<close>, \<open>soc_cog\<close> lies in \<open>[0.05, 0.95]\<close> and each
  stored pressure equals \<open>p_min + soc * p_range\<close>, which is \<open>8.0 + soc * 8.0\<close>.  The
  empty sequence is the state after construction; a sequence ending in \<open>Reset\<close> or in
  \<open>Update\<close> is the state after that call.
\<close>

theorem gas_network_soc_pressure_invariant:
  "0.05 \<le> soc_bfg (gn_state (gn_run (GasNetwork_init u) calls))
   \<and> soc_bfg (gn_state (gn_run (GasNetwork_init u) calls)) \<le> 0.95
   \<and> 0.05 \<le> soc_bofg (gn_state (gn_run (GasNetwork_init u) calls))
   \<and> soc_bofg (gn_state (gn_run (GasNetwork_init u) calls)) \<le> 0.95
   \<and> 0.05 \<le> soc_cog (gn_state (gn_run (GasNetwork_init u) calls))
   \<and> soc_cog (gn_state (gn_run (GasNetwork_init u) calls)) \<le> 0.95
   \<and> p_min (gn_run (GasNetwork_init u) calls) = 8.0
   \<and> p_range (gn_run (GasNetwork_init u) calls) = 8.0
   \<and> p_bfg (gn_state (gn_run (GasNetwork_init u) calls))
       = 8.0 + soc_bfg (gn_state (gn_run (GasNetwork_init u) calls)) * 8.0
   \<and> p_bofg (gn_state (gn_run (GasNetwork_init u) calls))
       = 8.0 + soc_bofg (gn_state (gn_run (GasNetwork_init u) calls)) * 8.0
   \<and> p_cog (gn_state (gn_run (GasNetwork_init u) calls))
       = 8.0 + soc_cog (gn_state (gn_run (GasNetwork_init u) calls)) * 8.0"
proof -
  have "soc_pressure_ok (gn_state (gn_run (GasNetwork_init u) calls))
        \<and> p_min (gn_run (GasNetwork_init u) calls) = 8
        \<and> p_range (gn_run (GasNetwork_init u) calls) = 8"
    using init_ok [of u] by (intro gn_run_ok) simp_all
  then show ?thesis by (simp add: soc_pressure_ok_def)
qed

lemma update_bfg_fields:
  "soc_bfg (gn_state (update n pr dm t))
     = np_clip (soc_bfg (gn_state n)
                + (calculate_net_flow BFG pr dm / 3600) * t * 60 / capacities n BFG) 0.05 0.95"
  "p_bfg (gn_state (update n pr dm t))
     = p_min n + soc_bfg (gn_state (update n pr dm t)) * p_range n"
  by (simp_all add: update_def Let_def update_holder_state update_holder_params)

lemma net_flow_example:
  "calculate_net_flow BFG [''bfg'' \<mapsto> 100000]
     [(''bfg_to_pp'', 50000), (''bfg_to_heating'', 30000)] = 20000"
  by (simp add: calculate_net_flow_def lower_def lower_char_def)

lemma consumption_fold:
  "foldl (\<lambda>consumption (key, val). if P key then consumption + val else consumption) a ds
   = a + sum_list (map snd (filter (\<lambda>(key, val). P key) ds))"
  by (induction ds arbitrary: a) (auto simp: algebra_simps)

lemma calculate_net_flow_sum:
  "calculate_net_flow g gas_production gas_demands
   = (case gas_production (gas_tag g) of None \<Rightarrow> 0 | Some v \<Rightarrow> v)
     - sum_list (map snd (filter (\<lambda>(key, val). str_contains (gas_tag g) (lower key)) gas_demands))"
  unfolding calculate_net_flow_def Let_def consumption_fold by (simp split: option.splits)

text \<open>
  Claim C6.  On the constructed network (capacity of BFG 400000, state of charge 0.5),
  \<open>update\<close> with timestep 1.0, a production map with \<open>bfg: 100000\<close> and any demand
  dict whose entries with a key containing \<open>bfg\<close> sum to 80000 (for example
  \<open>{bfg_to_pp: 50000, bfg_to_heating: 30000}\<close>) has net flow 20000, a change of state
  of charge of \<open>(20000/3600) * 1.0 * 60 / 400000 = 1/1200\<close>, the new state of charge
  \<open>0.5 + 1/1200\<close>, within \<open>10\<^sup>-\<^sup>6\<close> of 0.500833 and not changed by the clip, and the
  pressure \<open>p_min + soc * p_range\<close>.
\<close>

theorem update_bfg_surplus:
  assumes "gas_production ''bfg'' = Some 100000"
    and "sum_list (map snd (filter (\<lambda>(key, val). str_contains ''bfg'' (lower key))
           gas_demands)) = 80000"
  shows "calculate_net_flow BFG gas_production gas_demands = 20000
   \<and> capacities (GasNetwork_init u) BFG = 400000
   \<and> soc_bfg (gn_state (GasNetwork_init u)) = 0.5
   \<and> (20000 / 3600) * 1.0 * 60 / 400000 = (1 / 1200 :: real)
   \<and> soc_bfg (gn_state (update (GasNetwork_init u) gas_production gas_demands 1.0))
       = 0.5 + 1 / 1200
   \<and> np_clip (0.5 + 1 / 1200) 0.05 0.95 = 0.5 + 1 / 1200
   \<and> \<bar>soc_bfg (gn_state (update (GasNetwork_init u) gas_production gas_demands 1.0))
        - 0.500833\<bar> < 0.000001
   \<and> p_bfg (gn_state (update (GasNetwork_init u) gas_production gas_demands 1.0))
      = p_min (GasNetwork_init u)
        + soc_bfg (gn_state (update (GasNetwork_init u) gas_production gas_demands 1.0))
          * p_range (GasNetwork_init u)
   \<and> p_min (GasNetwork_init u) = 8 \<and> p_range (GasNetwork_init u) = 8"
proof -
  have nf: "calculate_net_flow BFG gas_production gas_demands = 20000"
    unfolding calculate_net_flow_sum using assms by simp
  show ?thesis
    unfolding update_bfg_fields nf
    by (simp add: GasNetwork_init_def nominal_state_def np_clip_def)
qed

theorem update_bfg_surplus_witness:
  "[''bfg'' \<mapsto> (100000::real)] ''bfg'' = Some 100000
   \<and> sum_list (map snd (filter (\<lambda>(key, val). str_contains ''bfg'' (lower key))
         [(''bfg_to_pp'', 50000), (''bfg_to_heating'', 30000::real)])) = 80000
   \<and> calculate_net_flow BFG [''bfg'' \<mapsto> 100000]
        [(''bfg_to_pp'', 50000), (''bfg_to_heating'', 30000)] = 20000
   \<and> soc_bfg (gn_state (update (GasNetwork_init False) [''bfg'' \<mapsto> 100000]
        [(''bfg_to_pp'', 50000), (''bfg_to_heating'', 30000)] 1.0)) = 0.5 + 1 / 1200
   \<and> p_bfg (gn_state (update (GasNetwork_init False) [''bfg'' \<mapsto> 100000]
        [(''bfg_to_pp'', 50000), (''bfg_to_heating'', 30000)] 1.0))
      = 8 + (0.5 + 1 / 1200) * 8"
proof -
  have p: "[''bfg'' \<mapsto> (100000::real)] ''bfg'' = Some 100000" by simp
  have d: "sum_list (map snd (filter (\<lambda>(key, val). str_contains ''bfg'' (lower key))
         [(''bfg_to_pp'', 50000), (''bfg_to_heating'', 30000::real)])) = 80000"
    by (simp add: lower_def lower_char_def)
  show ?thesis
    using p d
      update_bfg_surplus [of "[''bfg'' \<mapsto> 100000]"
        "[(''bfg_to_pp'', 50000), (''bfg_to_heating'', 30000)]" False]
    by simp
qed

section \<open>Properties of priority allocation\<close>

lemma loop_keys_subset: "set (map fst (allocate_loop items r)) \<subseteq> set (map fst items)"
  by (induction items r rule: allocate_loop.induct) (auto simp: Let_def)

lemma loop_distinct: "distinct (map fst items) \<Longrightarrow> distinct (map fst (allocate_loop items r))"
proof (induction items r rule: allocate_loop.induct)
  case (1 r) then show ?case by simp
next
  case (2 c d rest r)
  have "c \<notin> set (map fst (allocate_loop rest r'))" for r'
    using 2(2) loop_keys_subset[of rest r'] by auto
  then show ?case using 2 by (simp add: Let_def)
qed

lemma loop_sum:
  "0 \<le> r \<Longrightarrow> \<forall>x \<in> set items. 0 \<le> snd x \<Longrightarrow>
   sum_list (map snd (allocate_loop items r)) \<le> r \<and> (\<forall>x \<in> set (allocate_loop items r). 0 \<le> snd x)"
proof (induction items r rule: allocate_loop.induct)
  case (1 r) then show ?case by simp
next
  case (2 c d rest r)
  show ?case
  proof (cases "r - min d r \<le> 0")
    case True
    then show ?thesis using 2 by (auto simp: Let_def min_def)
  next
    case False
    then have "sum_list (map snd (allocate_loop rest (r - min d r))) \<le> r - min d r \<and> (\<forall>x \<in> set (allocate_loop rest (r - min d r)). 0 \<le> snd x)"
      using 2 by (auto simp: Let_def)
    then show ?thesis using False 2(2,3) by (auto simp: Let_def)
  qed
qed

lemma loop_amount:
  "0 \<le> r \<Longrightarrow> \<forall>x \<in> set items. 0 \<le> snd x \<Longrightarrow> distinct (map fst items) \<Longrightarrow>
   items = xs @ (c, d) # ys \<Longrightarrow>
   amount (allocate_loop items r) c = min d (max 0 (r - sum_list (map snd xs)))"
proof (induction xs arbitrary: items r)
  case Nil
  then show ?case by (simp add: amount_def Let_def)
next
  case (Cons x xs)
  obtain c' d' where x: "x = (c', d')" by (cases x)
  have ne: "c \<noteq> c'" using Cons.prems(3,4) x by auto
  have nn: "0 \<le> d'" "0 \<le> d" "0 \<le> sum_list (map snd xs)"
    using Cons.prems(2,4) x by (auto intro!: sum_list_nonneg)
  show ?case
  proof (cases "r - min d' r \<le> 0")
    case True
    then have "amount (allocate_loop items r) c = 0"
      using Cons.prems(4) x ne by (simp add: amount_def Let_def)
    moreover have "r - sum_list (map snd (x # xs)) \<le> 0" using True nn x by (simp add: min_def split: if_splits)
    ultimately show ?thesis using nn by simp
  next
    case False
    then have r': "r - min d' r = r - d'" "0 \<le> r - d'" by (auto simp: min_def split: if_splits)
    have "amount (allocate_loop (xs @ (c, d) # ys) (r - d')) c = min d (max 0 (r - d' - sum_list (map snd xs)))"
      using Cons.prems x r' by (intro Cons.IH) auto
    moreover have "amount (allocate_loop items r) c = amount (allocate_loop (xs @ (c, d) # ys) (r - d')) c"
      using Cons.prems(4) x ne False r' by (simp add: amount_def Let_def)
    ultimately show ?thesis using x by (simp add: algebra_simps)
  qed
qed

lemma keys_filter:
  "fst ` set (filter (\<lambda>(c, d). c \<notin> K) xs) = fst ` set xs - K"
  by force

lemma map_fst_zeros:
  "map fst (map (\<lambda>(consumer, demand). (consumer, 0.0::real)) xs) = map fst xs"
  by (induction xs) auto

lemma map_of_zeros:
  "map_of (map (\<lambda>(consumer, demand). (consumer, 0.0::real)) xs) c = None
   \<or> map_of (map (\<lambda>(consumer, demand). (consumer, 0.0::real)) xs) c = Some 0"
  by (induction xs) auto

lemma amount_append_zeros:
  "amount (allocation @ map (\<lambda>(consumer, demand). (consumer, 0.0::real)) zs) c
   = amount allocation c"
proof (cases "map_of allocation c")
  case (Some a)
  then show ?thesis by (simp add: amount_def)
next
  case None
  have e: "map_of (allocation @ map (\<lambda>(consumer, demand). (consumer, 0.0::real)) zs) c
        = map_of (map (\<lambda>(consumer, demand). (consumer, 0.0::real)) zs) c"
    using None by (simp add: map_add_def)
  show ?thesis
    unfolding amount_def e using None map_of_zeros[of zs c] by (auto split: option.splits)
qed

lemma amount_zero_fill: "amount (zero_fill demands allocation) c = amount allocation c"
  unfolding zero_fill_def by (rule amount_append_zeros)

lemma zero_fill_keys:
  assumes "set (map fst allocation) \<subseteq> set (map fst demands)"
  shows "set (map fst (zero_fill demands allocation)) = set (map fst demands)"
  using assms unfolding zero_fill_def map_append map_fst_zeros set_append set_map keys_filter
  by blast

lemma zero_fill_distinct:
  assumes "distinct (map fst allocation)" and "distinct (map fst demands)"
  shows "distinct (map fst (zero_fill demands allocation))"
proof -
  have "distinct (map fst (filter (\<lambda>(c, d). c \<notin> set (map fst allocation)) demands))"
    using assms(2) by (rule distinct_map_filter)
  moreover have "set (map fst allocation)
      \<inter> set (map fst (filter (\<lambda>(c, d). c \<notin> set (map fst allocation)) demands)) = {}"
    unfolding set_map keys_filter by blast
  ultimately show ?thesis
    using assms(1) unfolding zero_fill_def map_append map_fst_zeros distinct_append by blast
qed

lemma zero_fill_sum:
  "sum_list (map snd (zero_fill demands allocation)) = sum_list (map snd allocation)"
proof -
  have "sum_list (map snd (map (\<lambda>(consumer, demand). (consumer, 0.0::real)) xs)) = 0" for xs :: "(string \<times> real) list"
    by (induction xs) auto
  then show ?thesis by (simp add: zero_fill_def)
qed

lemma sorted_consumers_mset: "mset (sorted_consumers demands priorities) = mset demands"
  by (simp add: sorted_consumers_def)

lemma sorted_consumers_set: "set (sorted_consumers demands priorities) = set demands"
  by (simp add: sorted_consumers_def)

lemma sorted_consumers_distinct:
  "distinct (map fst demands) \<Longrightarrow> distinct (map fst (sorted_consumers demands priorities))"
proof -
  assume "distinct (map fst demands)"
  moreover have "mset (map fst (sorted_consumers demands priorities)) = mset (map fst demands)"
    by (simp add: sorted_consumers_def)
  ultimately show ?thesis by (metis mset_eq_imp_distinct_iff)
qed

lemma sorted_consumers_sorted:
  "sorted (map (\<lambda>(consumer, demand). - priority_get priorities consumer)
     (sorted_consumers demands priorities))"
  by (simp add: sorted_consumers_def)

lemma amount_priority_allocate:
  assumes "0 \<le> available" "\<forall>x \<in> set demands. 0 \<le> snd x" "distinct (map fst demands)"
    and "sorted_consumers demands priorities = xs @ (c, d) # ys"
  shows "amount (priority_allocate available demands priorities) c
         = min d (max 0 (available - sum_list (map snd xs)))"
proof -
  have nn: "\<forall>x \<in> set (sorted_consumers demands priorities). 0 \<le> snd x"
    using assms(2) by (simp add: sorted_consumers_set)
  show ?thesis
    unfolding priority_allocate_def amount_zero_fill
    by (rule loop_amount [OF assms(1) nn sorted_consumers_distinct [OF assms(3)] assms(4)])
qed

lemma higher_priority_first:
  assumes "distinct (map fst demands)" "(c1, d1) \<in> set demands" "(c2, d2) \<in> set demands"
    and "priority_get priorities c1 > priority_get priorities c2"
  shows "\<exists>xs ys zs. sorted_consumers demands priorities = xs @ (c1, d1) # ys @ (c2, d2) # zs"
proof -
  let ?s = "sorted_consumers demands priorities"
  let ?k = "\<lambda>(consumer, demand). - priority_get priorities consumer"
  have "(c1, d1) \<in> set ?s" using assms(2) by (simp add: sorted_consumers_set)
  then obtain xs rest where s: "?s = xs @ (c1, d1) # rest" by (meson split_list)
  have srt: "sorted (map ?k (xs @ (c1, d1) # rest))"
    using sorted_consumers_sorted[of priorities demands] s by simp
  have in2: "(c2, d2) \<in> set ?s" using assms(3) by (simp add: sorted_consumers_set)
  have "(c2, d2) \<notin> set xs"
  proof
    assume "(c2, d2) \<in> set xs"
    then have "?k (c2, d2) \<le> ?k (c1, d1)"
      using srt by (auto simp: sorted_append)
    then show False using assms(4) by simp
  qed
  moreover have "(c2, d2) \<noteq> (c1, d1)" using assms(4) by auto
  ultimately have "(c2, d2) \<in> set rest" using in2 s by auto
  then obtain ys zs where "rest = ys @ (c2, d2) # zs" by (meson split_list)
  then show ?thesis using s by blast
qed

lemma priority_respected:
  assumes "0 \<le> available" "\<forall>x \<in> set demands. 0 \<le> snd x" "distinct (map fst demands)"
    and "(c1, d1) \<in> set demands" "(c2, d2) \<in> set demands"
    and "priority_get priorities c1 > priority_get priorities c2"
    and "amount (priority_allocate available demands priorities) c2 > 0"
  shows "amount (priority_allocate available demands priorities) c1 = d1"
proof -
  obtain xs ys zs where s: "sorted_consumers demands priorities = xs @ (c1, d1) # ys @ (c2, d2) # zs"
    using higher_priority_first[OF assms(3,4,5,6)] by blast
  have a1: "amount (priority_allocate available demands priorities) c1
            = min d1 (max 0 (available - sum_list (map snd xs)))"
    using amount_priority_allocate[OF assms(1,2,3) s] .
  have s2: "sorted_consumers demands priorities = (xs @ (c1, d1) # ys) @ (c2, d2) # zs"
    using s by simp
  have a2: "amount (priority_allocate available demands priorities) c2
            = min d2 (max 0 (available - sum_list (map snd (xs @ (c1, d1) # ys))))"
    using amount_priority_allocate[OF assms(1,2,3) s2] .
  have "set ys \<subseteq> set demands"
    using sorted_consumers_set[of demands priorities] s by auto
  then have "\<forall>x \<in> set ys. 0 \<le> snd x" using assms(2) by blast
  then have "0 \<le> sum_list (map snd ys)" by (intro sum_list_nonneg) auto
  moreover have "0 < available - sum_list (map snd (xs @ (c1, d1) # ys))"
    using assms(7) a2 by (simp add: min_def max_def split: if_splits)
  ultimately have "d1 < available - sum_list (map snd xs)" by simp
  then show ?thesis using a1 by simp
qed

text \<open>
  Claim C5, as stated, ends with "consumers with zero or absent priority get 0".
  The code ranks an absent priority as 0 and serves such a consumer like any other:
  a single consumer with demand 60 and no priority entry (or with priority 0)
  receives 60 of the available 100.
\<close>

theorem priority_allocate_zero_priority_counterexample:
  "(Map.empty :: string \<rightharpoonup> int) ''A'' = None
   \<and> priority_allocate 100 [(''A'', 60)] Map.empty = [(''A'', 60)]
   \<and> priority_allocate 100 [(''A'', 60)] [''A'' \<mapsto> 0] = [(''A'', 60)]"
  by (simp add: priority_allocate_def sorted_consumers_def priority_get_def zero_fill_def)

text \<open>
  Claim C5, amended.  For every non-negative available amount and every demand dict
  with non-negative demands, \<open>priority_allocate\<close> returns exactly one entry for every
  consumer of the demand dict; the entries sum to at most \<open>available\<close>; whenever a
  consumer of lower priority receives anything, every consumer of higher priority has
  received its full demand; in sorted order each consumer receives the smaller of its
  demand and what the consumers before it have left, hence 0 once the demands before
  it exhaust the resource; \<open>priority_allocate(100, {A:60, B:60}, {A:2, B:1})\<close> is
  \<open>A = 60, B = 40\<close>; and a consumer with absent priority is ranked with priority 0
  (it is not set to 0 for that reason).
\<close>

theorem priority_allocate_correct:
  assumes "0 \<le> available" and "\<forall>x \<in> set demands. 0 \<le> snd x"
    and "distinct (map fst demands)"
  shows "set (map fst (priority_allocate available demands priorities)) = set (map fst demands)
    \<and> distinct (map fst (priority_allocate available demands priorities))
    \<and> sum_list (map snd (priority_allocate available demands priorities)) \<le> available
    \<and> (\<forall>c1 d1 c2 d2. (c1, d1) \<in> set demands \<and> (c2, d2) \<in> set demands
          \<and> priority_get priorities c1 > priority_get priorities c2
          \<and> amount (priority_allocate available demands priorities) c2 > 0
          \<longrightarrow> amount (priority_allocate available demands priorities) c1 = d1)
    \<and> (\<forall>xs c d ys. sorted_consumers demands priorities = xs @ (c, d) # ys
          \<longrightarrow> amount (priority_allocate available demands priorities) c
              = min d (max 0 (available - sum_list (map snd xs))))
    \<and> (\<forall>xs c d ys. sorted_consumers demands priorities = xs @ (c, d) # ys
          \<and> available \<le> sum_list (map snd xs)
          \<longrightarrow> amount (priority_allocate available demands priorities) c = 0)
    \<and> priority_allocate 100 [(''A'', 60), (''B'', 60)] [''A'' \<mapsto> 2, ''B'' \<mapsto> 1]
        = [(''A'', 60), (''B'', 40)]
    \<and> (priorities c = None \<longrightarrow> priority_get priorities c = 0)"
proof -
  let ?s = "sorted_consumers demands priorities"
  let ?l = "allocate_loop ?s available"
  have nn: "\<forall>x \<in> set ?s. 0 \<le> snd x"
    using assms(2) by (simp add: sorted_consumers_set)
  have ds: "distinct (map fst ?s)"
    using assms(3) by (rule sorted_consumers_distinct)
  have sub: "set (map fst ?l) \<subseteq> set (map fst demands)"
    using loop_keys_subset [of ?s available] by (simp add: sorted_consumers_set)
  have keys: "set (map fst (priority_allocate available demands priorities))
              = set (map fst demands)"
    unfolding priority_allocate_def using sub by (rule zero_fill_keys)
  have dist: "distinct (map fst (priority_allocate available demands priorities))"
    unfolding priority_allocate_def
    using loop_distinct [OF ds] assms(3) by (rule zero_fill_distinct)
  have total: "sum_list (map snd (priority_allocate available demands priorities)) \<le> available"
    unfolding priority_allocate_def zero_fill_sum
    using loop_sum [OF assms(1) nn] by blast
  have prio: "\<forall>c1 d1 c2 d2. (c1, d1) \<in> set demands \<and> (c2, d2) \<in> set demands
          \<and> priority_get priorities c1 > priority_get priorities c2
          \<and> amount (priority_allocate available demands priorities) c2 > 0
          \<longrightarrow> amount (priority_allocate available demands priorities) c1 = d1"
    using priority_respected [OF assms] by blast
  have formula: "\<forall>xs c d ys. ?s = xs @ (c, d) # ys
          \<longrightarrow> amount (priority_allocate available demands priorities) c
              = min d (max 0 (available - sum_list (map snd xs)))"
    using amount_priority_allocate [OF assms] by blast
  have zero: "\<forall>xs c d ys. ?s = xs @ (c, d) # ys \<and> available \<le> sum_list (map snd xs)
          \<longrightarrow> amount (priority_allocate available demands priorities) c = 0"
  proof (intro allI impI)
    fix xs c d ys
    assume h: "?s = xs @ (c, d) # ys \<and> available \<le> sum_list (map snd xs)"
    then have "(c, d) \<in> set demands"
      using sorted_consumers_set [of demands priorities] by auto
    then have "0 \<le> d" using assms(2) by auto
    moreover have "amount (priority_allocate available demands priorities) c
              = min d (max 0 (available - sum_list (map snd xs)))"
      using formula h by blast
    ultimately show "amount (priority_allocate available demands priorities) c = 0"
      using h by simp
  qed
  have ex: "priority_allocate 100 [(''A'', 60), (''B'', 60)] [''A'' \<mapsto> 2, ''B'' \<mapsto> 1]
        = [(''A'', 60), (''B'', 40)]"
    by (simp add: priority_allocate_def sorted_consumers_def priority_get_def zero_fill_def)
  have absent: "priorities c = None \<longrightarrow> priority_get priorities c = 0"
    by (simp add: priority_get_def)
  show ?thesis using keys dist total prio formula zero ex absent by blast
qed

theorem priority_allocate_correct_witness:
  "(0::real) \<le> 100
   \<and> 0 \<le> snd (''A'', 60::real) \<and> 0 \<le> snd (''B'', 60::real)
   \<and> distinct (map fst [(''A'', 60), (''B'', 60::real)])
   \<and> priority_get [''A'' \<mapsto> 2, ''B'' \<mapsto> 1] ''A'' > priority_get [''A'' \<mapsto> 2, ''B'' \<mapsto> 1] ''B''
   \<and> amount (priority_allocate 100 [(''A'', 60), (''B'', 60)] [''A'' \<mapsto> 2, ''B'' \<mapsto> 1]) ''B'' > 0
   \<and> amount (priority_allocate 100 [(''A'', 60), (''B'', 60)] [''A'' \<mapsto> 2, ''B'' \<mapsto> 1]) ''A'' = 60
   \<and> sum_list (map snd (priority_allocate 100 [(''A'', 60), (''B'', 60)] [''A'' \<mapsto> 2, ''B'' \<mapsto> 1]))
        \<le> 100"
proof -
  have a: "(0::real) \<le> 100" by simp
  have n: "\<forall>x \<in> set [(''A'', 60), (''B'', 60::real)]. 0 \<le> snd x" by simp
  have d: "distinct (map fst [(''A'', 60), (''B'', 60::real)])" by simp
  have e: "priority_allocate 100 [(''A'', 60), (''B'', 60)] [''A'' \<mapsto> 2, ''B'' \<mapsto> 1]
        = [(''A'', 60), (''B'', 40)]"
    using priority_allocate_correct [OF a n d, of "[''A'' \<mapsto> 2, ''B'' \<mapsto> 1]"] by blast
  have s: "sum_list (map snd (priority_allocate 100 [(''A'', 60), (''B'', 60)]
              [''A'' \<mapsto> 2, ''B'' \<mapsto> 1])) \<le> 100"
    using priority_allocate_correct [OF a n d, of "[''A'' \<mapsto> 2, ''B'' \<mapsto> 1]"] by blast
  show ?thesis using a n d s unfolding e by (simp add: amount_def priority_get_def)
qed

section \<open>Properties of the reward\<close>
















section \<open>Properties of the BOF agent and of the surge warning\<close>

lemma BOF_safety_keeps:
  "blow_duration (bof_state (BOF_apply_safety_rules a P)) = blow_duration (bof_state a)"
  "time_to_next_blow (BOF_apply_safety_rules a P) = time_to_next_blow a"
  by (simp_all add: BOF_apply_safety_rules_def Let_def)

lemma BOF_process_keeps:
  "blow_duration (bof_state (BOF_apply_process_rules a T)) = blow_duration (bof_state a)"
  "time_to_next_blow (BOF_apply_process_rules a T) = time_to_next_blow a"
  by (simp_all add: BOF_apply_process_rules_def Let_def)

lemma BOF_energy_bus:
  "snd (BOF_apply_energy_rules a g soc p message_bus) =
     (case message_bus of
        None \<Rightarrow> None
      | Some bus \<Rightarrow>
          if time_to_next_blow a \<le> 2.0 then
            Some (send bus (to_message \<lparr> time_to_blow = time_to_next_blow a,
                                          expected_peak = 60000,
                                          duration = blow_duration (bof_state a),
                                          current_gh_soc = soc \<rparr> (bus_time bus)))
          else Some bus)"
  by (simp add: BOF_apply_energy_rules_def Let_def split: option.splits)

lemma BOF_step_bus:
  "snd (BOF_step a obs message_bus) =
     (case message_bus of
        None \<Rightarrow> None
      | Some bus \<Rightarrow>
          if time_to_next_blow a \<le> 2.0 then
            Some (send bus (to_message \<lparr> time_to_blow = time_to_next_blow a,
                                          expected_peak = 60000,
                                          duration = blow_duration (bof_state a),
                                          current_gh_soc = as_num (obs_get obs ''SOC_bofg'' (Num 0.5)) \<rparr>
                                       (bus_time bus)))
          else Some bus)"
proof -
  have "snd (BOF_step a obs message_bus) =
        snd (BOF_apply_energy_rules
               (BOF_apply_process_rules
                  (BOF_apply_safety_rules a (as_num (obs_get obs ''P_bof_gas'' (Num 12.0))))
                  (as_num (obs_get obs ''T_steel'' (Num 1650))))
               (as_num (obs_get obs ''bof_gas_current'' (Num 30000)))
               (as_num (obs_get obs ''SOC_bofg'' (Num 0.5)))
               (as_num (obs_get obs ''P_bofg'' (Num 12.0)))
               message_bus)"
    by (simp add: BOF_step_def Let_def split: prod.splits)
  then show ?thesis
    by (simp only: BOF_energy_bus BOF_safety_keeps BOF_process_keeps)
qed

lemma BOF_step_countdown:
  "time_to_next_blow (fst (BOF_step a obs message_bus)) = max 0 (time_to_next_blow a - 1)"
  by (simp add: BOF_step_def Let_def BOF_apply_energy_rules_def BOF_safety_keeps
      BOF_process_keeps split: prod.splits)

lemma BOF_idle_countdown:
  "0 \<le> time_to_next_blow a \<Longrightarrow>
   time_to_next_blow (BOF_idle_steps n a) = max 0 (time_to_next_blow a - real n)"
proof (induction n)
  case 0
  then show ?case by (simp add: BOF_idle_steps_def)
next
  case (Suc n)
  have "time_to_next_blow (BOF_idle_steps (Suc n) a)
        = max 0 (time_to_next_blow (BOF_idle_steps n a) - 1)"
    by (simp add: BOF_idle_steps_def BOF_step_countdown)
  then show ?case using Suc by (simp add: max_def)
qed

lemma BOF_idle_step_init:
  assumes "0 \<le> t"
  shows "fst (BOF_step ((BOF_Agent_init i)\<lparr>time_to_next_blow := t\<rparr>) Map.empty None)
         = (BOF_Agent_init i)\<lparr>time_to_next_blow := max 0 (t - 1)\<rparr>"
  by (simp add: BOF_step_def BOF_apply_safety_rules_def BOF_apply_process_rules_def
      BOF_apply_energy_rules_def BOF_Agent_init_def obs_get_def clamp_def Let_def
      BOF_O2_MAX_def BOF_P_MAX_def)

lemma BOF_idle_steps_init:
  "BOF_idle_steps n (BOF_Agent_init i)
   = (BOF_Agent_init i)\<lparr>time_to_next_blow := max 0 (30 - real n)\<rparr>"
proof (induction n)
  case 0
  then show ?case by (simp add: BOF_idle_steps_def BOF_Agent_init_def)
next
  case (Suc n)
  have "BOF_idle_steps (Suc n) (BOF_Agent_init i)
        = fst (BOF_step (BOF_idle_steps n (BOF_Agent_init i)) Map.empty None)"
    by (simp add: BOF_idle_steps_def)
  also have "\<dots> = (BOF_Agent_init i)\<lparr>time_to_next_blow := max 0 (max 0 (30 - real n) - 1)\<rparr>"
    unfolding Suc by (rule BOF_idle_step_init) simp
  also have "max 0 (max 0 (30 - real n) - 1) = max 0 (30 - real (Suc n))"
    by (simp add: max_def)
  finally show ?case .
qed

lemma BOF_before_blow:
  "BOF_idle_steps 28 (BOF_Agent_init i) = (BOF_Agent_init i)\<lparr>time_to_next_blow := 2\<rparr>"
  by (simp add: BOF_idle_steps_init)

lemma agents_decide_bus_empty: "messages (fst (agents_decide bus ags obs)) = []"
  by (simp add: agents_decide_def clear_def Let_def split: prod.splits)

lemma agents_decide_gh:
  "gh_agent (snd (agents_decide bus ags obs)) = GH_step (gh_agent ags) obs None"
  by (simp add: agents_decide_def Let_def split: prod.splits)

lemma GH_step_idle:
  "gh_state (GH_step (GasHolder_Agent_init i) Map.empty None) = gh_state (GasHolder_Agent_init i)"
  by (simp add: GH_step_def GasHolder_Agent_init_def obs_get_def control_bfgh_def
      control_bofgh_def control_cogh_def Let_def GH_P_EMERGENCY_def GH_SOC_MIN_def)

text \<open>
  Claim C9.  When \<open>BOF_step\<close> is called with a bus while the countdown
  \<open>time_to_next_blow\<close> is at most 2.0, exactly one message is appended to the bus: it
  has the type \<open>BOFG_SURGE_WARNING\<close>, and its fields \<open>time_to_blow\<close>, \<open>expected_peak\<close>,
  \<open>duration\<close> and \<open>gh_soc\<close> hold the countdown, 60000, the agent's \<open>blow_duration\<close>
  and the observed \<open>SOC_bofg\<close> (0.5 by default).  When the countdown is above 2.0 the
  bus is returned unchanged, and without a bus there is none to append to.
\<close>

theorem BOF_surge_warning:
  "(time_to_next_blow a \<le> 2.0 \<longrightarrow>
      snd (BOF_step a obs (Some bus)) =
        Some (bus\<lparr>messages := messages bus @
          [\<lparr> msg_type = BOFG_SURGE_WARNING, sender = ''BOFAgent'', receiver = ''GasHolderAgent'',
             timestamp = bus_time bus,
             data = [(''time_to_blow'', time_to_next_blow a),
                     (''expected_peak'', 60000),
                     (''duration'', blow_duration (bof_state a)),
                     (''gh_soc'', as_num (obs_get obs ''SOC_bofg'' (Num 0.5)))] \<rparr>]\<rparr>))
   \<and> (time_to_next_blow a > 2.0 \<longrightarrow> snd (BOF_step a obs (Some bus)) = Some bus)
   \<and> snd (BOF_step a obs None) = None"
  by (simp add: BOF_step_bus send_def to_message_def)

theorem BOF_surge_warning_witness:
  "time_to_next_blow (BOF_idle_steps 28 (BOF_Agent_init ''BOF1'')) \<le> 2.0
   \<and> snd (BOF_step (BOF_idle_steps 28 (BOF_Agent_init ''BOF1''))
             [''SOC_bofg'' \<mapsto> Num 0.6] (Some MessageBus_init))
      = Some \<lparr> messages =
          [\<lparr> msg_type = BOFG_SURGE_WARNING, sender = ''BOFAgent'', receiver = ''GasHolderAgent'',
             timestamp = 0,
             data = [(''time_to_blow'', 2), (''expected_peak'', 60000), (''duration'', 18),
                     (''gh_soc'', 0.6)] \<rparr>],
          bus_time = 0 \<rparr>
   \<and> time_to_next_blow (BOF_Agent_init ''BOF1'') > 2.0
   \<and> snd (BOF_step (BOF_Agent_init ''BOF1'') [''SOC_bofg'' \<mapsto> Num 0.6] (Some MessageBus_init))
      = Some MessageBus_init"
proof -
  have c: "time_to_next_blow (BOF_idle_steps 28 (BOF_Agent_init ''BOF1'')) \<le> 2.0"
    by (simp add: BOF_before_blow)
  have i: "time_to_next_blow (BOF_Agent_init ''BOF1'') > 2.0"
    by (simp add: BOF_Agent_init_def)
  show ?thesis
    using c i
      BOF_surge_warning [of "BOF_idle_steps 28 (BOF_Agent_init ''BOF1'')"
        "[''SOC_bofg'' \<mapsto> Num 0.6]" MessageBus_init]
      BOF_surge_warning [of "BOF_Agent_init ''BOF1''"
        "[''SOC_bofg'' \<mapsto> Num 0.6]" MessageBus_init]
    unfolding BOF_before_blow
    by (simp add: MessageBus_init_def obs_get_def BOF_Agent_init_def)
qed

text \<open>
  Claim C4 says that a surge warning published by the BOF agent during a tick of the
  driver loop reaches the gas holder agent in that tick, which then reduces both BOFG
  outflows.  The code is evaluated at the tick where the countdown of the BOF agent
  has reached 2.0 (after 28 steps), on the empty observation map.
  \<^item> As the driver is written, no agent is given the bus: the bus stays empty and the
    gas holder agent \<open>GH1\<close> leaves \<open>bofg_to_pp = 20000\<close> and \<open>bofg_to_heating = 10000\<close>.
  \<^item> When the cleared bus is handed to both agents, the BOF agent publishes the
    warning, addressed to \<open>GasHolderAgent\<close>; the gas holder agent asks for the
    messages of its own id \<open>GH1\<close>, receives none, and again leaves both outflows
    unchanged.
  \<^item> Only a gas holder agent whose id is \<open>GasHolderAgent\<close> receives the warning and
    reduces the outflows to 16000 and 8500.
\<close>

theorem surge_warning_not_delivered:
  "time_to_next_blow (BOF_idle_steps 28 (BOF_Agent_init ''BOF1'')) = 2
   \<and> messages (fst (agents_decide MessageBus_init
        (Agents_init\<lparr>bof_agent := BOF_idle_steps 28 (BOF_Agent_init ''BOF1'')\<rparr>) Map.empty)) = []
   \<and> bofg_to_pp (gh_state (gh_agent (snd (agents_decide MessageBus_init
        (Agents_init\<lparr>bof_agent := BOF_idle_steps 28 (BOF_Agent_init ''BOF1'')\<rparr>) Map.empty)))) = 20000
   \<and> bofg_to_heating (gh_state (gh_agent (snd (agents_decide MessageBus_init
        (Agents_init\<lparr>bof_agent := BOF_idle_steps 28 (BOF_Agent_init ''BOF1'')\<rparr>) Map.empty)))) = 10000
   \<and> snd (BOF_step (BOF_idle_steps 28 (BOF_Agent_init ''BOF1'')) Map.empty
            (Some (clear MessageBus_init)))
      = Some \<lparr> messages =
          [\<lparr> msg_type = BOFG_SURGE_WARNING, sender = ''BOFAgent'', receiver = ''GasHolderAgent'',
             timestamp = 0,
             data = [(''time_to_blow'', 2), (''expected_peak'', 60000), (''duration'', 18),
                     (''gh_soc'', 0.5)] \<rparr>],
          bus_time = 0 \<rparr>
   \<and> gh_agent_id (GasHolder_Agent_init ''GH1'') = ''GH1''
   \<and> get_messages \<lparr> messages =
          [\<lparr> msg_type = BOFG_SURGE_WARNING, sender = ''BOFAgent'', receiver = ''GasHolderAgent'',
             timestamp = 0,
             data = [(''time_to_blow'', 2), (''expected_peak'', 60000), (''duration'', 18),
                     (''gh_soc'', 0.5)] \<rparr>],
          bus_time = 0 \<rparr> ''GH1'' (Some BOFG_SURGE_WARNING) = []
   \<and> bofg_to_pp (gh_state (GH_step (GasHolder_Agent_init ''GH1'') Map.empty
        (snd (BOF_step (BOF_idle_steps 28 (BOF_Agent_init ''BOF1'')) Map.empty
               (Some (clear MessageBus_init)))))) = 20000
   \<and> bofg_to_heating (gh_state (GH_step (GasHolder_Agent_init ''GH1'') Map.empty
        (snd (BOF_step (BOF_idle_steps 28 (BOF_Agent_init ''BOF1'')) Map.empty
               (Some (clear MessageBus_init)))))) = 10000
   \<and> bofg_to_pp (gh_state (GH_step (GasHolder_Agent_init ''GasHolderAgent'') Map.empty
        (snd (BOF_step (BOF_idle_steps 28 (BOF_Agent_init ''BOF1'')) Map.empty
               (Some (clear MessageBus_init)))))) = 16000
   \<and> bofg_to_heating (gh_state (GH_step (GasHolder_Agent_init ''GasHolderAgent'') Map.empty
        (snd (BOF_step (BOF_idle_steps 28 (BOF_Agent_init ''BOF1'')) Map.empty
               (Some (clear MessageBus_init)))))) = 8500"
proof -
  let ?w = "\<lparr> msg_type = BOFG_SURGE_WARNING, sender = ''BOFAgent'', receiver = ''GasHolderAgent'',
             timestamp = 0,
             data = [(''time_to_blow'', 2), (''expected_peak'', 60000), (''duration'', 18),
                     (''gh_soc'', 0.5)] \<rparr>"
  have b: "snd (BOF_step (BOF_idle_steps 28 (BOF_Agent_init ''BOF1'')) Map.empty
                  (Some (clear MessageBus_init)))
           = Some \<lparr> messages = [?w], bus_time = 0 \<rparr>"
    unfolding BOF_before_blow BOF_step_bus
    by (simp add: BOF_Agent_init_def clear_def MessageBus_init_def send_def to_message_def
        obs_get_def)
  have g: "get_messages \<lparr> messages = [?w], bus_time = 0 \<rparr> ''GH1'' (Some BOFG_SURGE_WARNING) = []"
    by (simp add: get_messages_def)
  have s1: "gh_state (GH_step (GasHolder_Agent_init ''GH1'') Map.empty
              (Some \<lparr> messages = [?w], bus_time = 0 \<rparr>)) = gh_state (GasHolder_Agent_init ''GH1'')"
    unfolding GH_step_def Let_def option.case
    by (simp add: get_messages_def GasHolder_Agent_init_def obs_get_def control_bfgh_def
      control_bofgh_def control_cogh_def GH_P_EMERGENCY_def GH_SOC_MIN_def)
  have s2: "gh_state (GH_step (GasHolder_Agent_init ''GasHolderAgent'') Map.empty
              (Some \<lparr> messages = [?w], bus_time = 0 \<rparr>))
            = (gh_state (GasHolder_Agent_init ''GasHolderAgent''))
                \<lparr>bofg_to_pp := 16000, bofg_to_heating := 8500\<rparr>"
    unfolding GH_step_def Let_def option.case
    by (simp add: get_messages_def GasHolder_Agent_init_def obs_get_def control_bfgh_def
      control_bofgh_def control_cogh_def GH_P_EMERGENCY_def GH_SOC_MIN_def
      incremental_adjust_def)
  have t: "time_to_next_blow (BOF_idle_steps 28 (BOF_Agent_init ''BOF1'')) = 2"
    by (simp add: BOF_before_blow)
  have d: "gh_state (gh_agent (snd (agents_decide MessageBus_init
        (Agents_init\<lparr>bof_agent := BOF_idle_steps 28 (BOF_Agent_init ''BOF1'')\<rparr>) Map.empty)))
        = gh_state (GasHolder_Agent_init ''GH1'')"
    unfolding agents_decide_gh by (simp add: Agents_init_def GH_step_idle)
  show ?thesis
    unfolding b s1 s2 d agents_decide_bus_empty
    using t g by (simp add: GasHolder_Agent_init_def)
qed

section \<open>Properties of the environment reset\<close>

lemma MAS_SimEnv_reset_fields:
  "env_time (MAS_SimEnv_reset env) = 0"
  "messages (env_message_bus (MAS_SimEnv_reset env)) = []"
  "gn_state (gas_network (MAS_SimEnv_reset env)) = nominal_state"
  "get_observations (MAS_SimEnv_reset env)
     = (env_state env)\<lparr>env_soc_bfg := 0.5, env_soc_bofg := 0.5, env_soc_cog := 0.5,
                       env_Si := 0.45, env_T_hot_metal := 1500, env_T_steel := 1650\<rparr>"
  by (simp_all add: MAS_SimEnv_reset_def Let_def clear_def reset_def get_observations_def)

lemma net_flow_bfg_5000:
  "calculate_net_flow BFG [''bfg'' \<mapsto> 125000, ''bofg'' \<mapsto> 30000, ''cog'' \<mapsto> 15000]
     [(''bfg_to_pp'', 50000), (''bfg_to_heating'', 30000)] = 45000"
  by (simp add: calculate_net_flow_def lower_def lower_char_def)

lemma MAS_SimEnv_step_example:
  "env_bfg_supply (env_state (MAS_SimEnv_step tw (MAS_SimEnv_init False)
     [''BF'' \<mapsto> [(''wind_volume'', 5000)],
      ''GasHolder'' \<mapsto> [(''bfg_to_pp'', 50000), (''bfg_to_heating'', 30000)]] noise)) = 125000"
  "env_pig_iron_production (env_state (MAS_SimEnv_step tw (MAS_SimEnv_init False)
     [''BF'' \<mapsto> [(''wind_volume'', 5000)],
      ''GasHolder'' \<mapsto> [(''bfg_to_pp'', 50000), (''bfg_to_heating'', 30000)]] noise)) = 250"
  "env_p_bfg (env_state (MAS_SimEnv_step tw (MAS_SimEnv_init False)
     [''BF'' \<mapsto> [(''wind_volume'', 5000)],
      ''GasHolder'' \<mapsto> [(''bfg_to_pp'', 50000), (''bfg_to_heating'', 30000)]] noise)) = 12.015"
  by (simp_all add: MAS_SimEnv_step_def step_simple_dynamics_def MAS_SimEnv_init_def Let_def
      dict_get_def initial_env_state_def merge_gas_network_state_def update_bfg_fields
      net_flow_bfg_5000 GasNetwork_init_def nominal_state_def np_clip_def)

text \<open>
  Claim C10 says that after \<open>MAS_SimEnv_reset\<close> the time is zero, the bus is empty,
  the gas network is at its nominal baseline, and every observation field returned
  has its initial default value.  The code is evaluated on the environment without
  twins after one step with the actions
  \<open>{BF: {wind_volume: 5000}, GasHolder: {bfg_to_pp: 50000, bfg_to_heating: 30000}}\<close>,
  for any noise draw.  After the reset the time is zero, the bus is empty and the
  gas network is nominal (pressure 12.0), but the returned observation still has
  \<open>p_bfg = 12.015\<close>, \<open>bfg_supply = 125000\<close> and \<open>pig_iron_production = 250\<close>, where
  the initial values are 12.0, 100000 and 200: the reset assigns only the three
  states of charge, \<open>Si\<close>, \<open>T_hot_metal\<close> and \<open>T_steel\<close>.
\<close>

theorem reset_leaves_stale_observations:
  "env_time (MAS_SimEnv_reset (MAS_SimEnv_step tw (MAS_SimEnv_init False)
     [''BF'' \<mapsto> [(''wind_volume'', 5000)],
      ''GasHolder'' \<mapsto> [(''bfg_to_pp'', 50000), (''bfg_to_heating'', 30000)]] noise)) = 0
   \<and> messages (env_message_bus (MAS_SimEnv_reset (MAS_SimEnv_step tw (MAS_SimEnv_init False)
     [''BF'' \<mapsto> [(''wind_volume'', 5000)],
      ''GasHolder'' \<mapsto> [(''bfg_to_pp'', 50000), (''bfg_to_heating'', 30000)]] noise))) = []
   \<and> gn_state (gas_network (MAS_SimEnv_reset (MAS_SimEnv_step tw (MAS_SimEnv_init False)
     [''BF'' \<mapsto> [(''wind_volume'', 5000)],
      ''GasHolder'' \<mapsto> [(''bfg_to_pp'', 50000), (''bfg_to_heating'', 30000)]] noise)))
       = nominal_state
   \<and> p_bfg nominal_state = 12.0
   \<and> env_soc_bfg (get_observations (MAS_SimEnv_reset (MAS_SimEnv_step tw (MAS_SimEnv_init False)
     [''BF'' \<mapsto> [(''wind_volume'', 5000)],
      ''GasHolder'' \<mapsto> [(''bfg_to_pp'', 50000), (''bfg_to_heating'', 30000)]] noise))) = 0.5
   \<and> env_p_bfg (get_observations (MAS_SimEnv_reset (MAS_SimEnv_step tw (MAS_SimEnv_init False)
     [''BF'' \<mapsto> [(''wind_volume'', 5000)],
      ''GasHolder'' \<mapsto> [(''bfg_to_pp'', 50000), (''bfg_to_heating'', 30000)]] noise))) = 12.015
   \<and> env_p_bfg (env_state (MAS_SimEnv_init False)) = 12.0
   \<and> env_bfg_supply (get_observations (MAS_SimEnv_reset (MAS_SimEnv_step tw (MAS_SimEnv_init False)
     [''BF'' \<mapsto> [(''wind_volume'', 5000)],
      ''GasHolder'' \<mapsto> [(''bfg_to_pp'', 50000), (''bfg_to_heating'', 30000)]] noise))) = 125000
   \<and> env_bfg_supply (env_state (MAS_SimEnv_init False)) = 100000
   \<and> env_pig_iron_production (get_observations (MAS_SimEnv_reset
       (MAS_SimEnv_step tw (MAS_SimEnv_init False)
     [''BF'' \<mapsto> [(''wind_volume'', 5000)],
      ''GasHolder'' \<mapsto> [(''bfg_to_pp'', 50000), (''bfg_to_heating'', 30000)]] noise))) = 250
   \<and> env_pig_iron_production (env_state (MAS_SimEnv_init False)) = 200"
proof -
  have i: "env_p_bfg (env_state (MAS_SimEnv_init False)) = 12.0
           \<and> env_bfg_supply (env_state (MAS_SimEnv_init False)) = 100000
           \<and> env_pig_iron_production (env_state (MAS_SimEnv_init False)) = 200"
    by (simp add: MAS_SimEnv_init_def initial_env_state_def)
  have n: "p_bfg nominal_state = 12.0"
    by (simp add: nominal_state_def)
  show ?thesis
    unfolding MAS_SimEnv_reset_fields using i n
    by (simp add: MAS_SimEnv_step_example)
qed

end
